theory Spec2Isabelle
  imports Complex_Main "HOL-Library.Sublist"
begin

section \<open>Data model\<close>

text \<open>
  Strings are byte lists: an ASCII literal of the source is written as it is, and the
  Korean message texts of the source are written as their UTF-8 bytes. No property below
  depends on the length of a string, only on equality and concatenation.
\<close>

text \<open>A thrown JavaScript \<open>Error\<close> object, read through \<open>err.message\<close>.\<close>

datatype exn = Error (message: string)

text \<open>
  A parsed JSON value. The orchestrator passes tool arguments and the unknown fields of
  a response segment through without reading them.
\<close>

datatype json =
    JNull
  | JBool bool
  | JNum rat
  | JStr string
  | JArr "json list"
  | JObj "(string \<times> json) list"

text \<open>JavaScript truthiness of a JSON value (\<open>!v\<close> is its negation).\<close>

fun truthy :: "json \<Rightarrow> bool" where
  "truthy JNull = False"
| "truthy (JBool b) = b"
| "truthy (JNum n) = (n \<noteq> 0)"
| "truthy (JStr s) = (s \<noteq> [])"
| "truthy (JArr xs) = True"
| "truthy (JObj kvs) = True"

text \<open>\<open>ChatMessage\<close> and \<open>ChatResponse\<close> of chat.ts.\<close>

datatype msg_role = UserMsg | Assistant

record ChatMessage =
  msg_role :: msg_role
  msg_text :: string

record ChatResponse =
  reply :: string
  tools_used :: "string list"

text \<open>
  The wire shape of a content segment (\<open>parts[i]\<close>): an optional \<open>text\<close>, an optional
  \<open>functionCall\<close> object, an optional \<open>functionResponse {name, response: {result}}\<close>,
  and every other field the service attached (\<open>thoughtSignature\<close> among them), kept as
  an association list. Of a \<open>functionCall\<close> object the code reads \<open>name\<close> and \<open>args\<close>;
  every other field it carries (\<open>id\<close> among them) is kept as an association list too.
  The strings are those the source declares as \<open>string\<close>: the name
  (\<open>executeTool(name: string, ...)\<close>, \<open>toolsUsed: string[]\<close>) and the text that becomes
  \<open>reply: string\<close>.
\<close>

record function_call =
  fc_name :: string
  fc_args :: "json option"
  fc_other :: "(string \<times> json) list"

record function_response =
  fr_name :: string
  fr_result :: string

record part =
  ptext :: "string option"
  functionCall :: "function_call option"
  functionResponse :: "function_response option"
  other_fields :: "(string \<times> json) list"

datatype role = User | Model

record turn =
  role :: role
  parts :: "part list"

text \<open>
  The body of a completion-service response as far as chat.ts reads it:
  \<open>geminiData.error?.message\<close> and \<open>geminiData.candidates[0].content.parts\<close>, each level
  possibly absent. The source types the body as \<open>any\<close>; the model takes the wire shape
  of the completion service: a JSON object whose \<open>candidates\<close>, when present, is an
  array of objects, and whose \<open>parts\<close>, when present, is an array of segment objects.
\<close>

record content =
  content_parts :: "part list option"

record candidate =
  candidate_content :: "content option"

record gemini_data =
  error_message :: "string option"
  candidates :: "candidate list option"

text \<open>
  The outbound call: \<open>fetch\<close> either rejects (transport failure) or resolves to a
  response with a status flag \<open>ok\<close> and the bytes of a body, \<open>body_text\<close>;
  \<open>geminiRes.json()\<close> runs \<open>JSON.parse\<close> on these bytes and either throws (the body is
  not JSON) or yields the parsed body, \<open>json_body\<close>. A body that parses to the value
  \<open>null\<close> makes the first read of the loop (\<open>geminiData.error\<close> or
  \<open>geminiData.candidates\<close>) throw a TypeError before anything else happens, with
  either status; for the loop it is a body that throws, \<open>Inl\<close>. Other parsed values
  that are not of the wire shape have no value here.
\<close>

record response =
  ok :: bool
  body_text :: string
  json_body :: "exn + gemini_data"

datatype fetch_result = Rejects exn | Resolves response

record request =
  req_model :: string
  req_key :: string
  req_contents :: "turn list"
  req_tools :: "string list"

text \<open>
  The executors imported from tools.ts perform network calls of their own. Each is a
  function of its arguments and of the state of the outside world \<open>'w\<close>; it returns a
  string or throws, and leaves a new state of the world. tools.ts has no \<open>throw\<close>
  statement: what an executor throws is the \<open>Error\<close> object of a failed \<open>fetch\<close>,
  \<open>json()\<close> or property read.
\<close>

record 'w executors =
  weather_tool :: "json option \<Rightarrow> 'w \<Rightarrow> (exn + string) \<times> 'w"
  exchange_rate_tool :: "json option \<Rightarrow> 'w \<Rightarrow> (exn + string) \<times> 'w"
  translate_tool :: "json option \<Rightarrow> string \<Rightarrow> 'w \<Rightarrow> (exn + string) \<times> 'w"
  summarize_tool :: "json option \<Rightarrow> string \<Rightarrow> 'w \<Rightarrow> (exn + string) \<times> 'w"
  web_search_tool :: "json option \<Rightarrow> 'w \<Rightarrow> (exn + string) \<times> 'w"
  fetch_url_tool :: "json option \<Rightarrow> 'w \<Rightarrow> (exn + string) \<times> 'w"
  calculate_tool :: "json option \<Rightarrow> 'w \<Rightarrow> (exn + string) \<times> 'w"
  datetime_tool :: "json option \<Rightarrow> 'w \<Rightarrow> (exn + string) \<times> 'w"

text \<open>
  What handleChat depends on outside itself: the global \<open>fetch\<close>, \<open>JSON.stringify\<close> on a
  response body (for the error reply) and on the transcript (for the body of the
  POST), and the executors.
\<close>

record 'w env =
  fetch :: "request \<Rightarrow> 'w \<Rightarrow> fetch_result \<times> 'w"
  JSON_stringify :: "gemini_data \<Rightarrow> string"
  JSON_stringify_contents :: "turn list \<Rightarrow> string"
  tools :: "'w executors"

section \<open>Constants of chat.ts\<close>

definition GEMINI_MODEL :: string where
  "GEMINI_MODEL = ''gemini-3-pro-preview''"

definition MAX_TOOL_CALLS :: nat where
  "MAX_TOOL_CALLS = 5"

text \<open>The names of \<open>functionDeclarations\<close>, in the order of the source.\<close>

definition functionDeclarations :: "string list" where
  "functionDeclarations =
     [''weather'', ''exchange_rate'', ''translate'', ''summarize'',
      ''web_search'', ''fetch_url'', ''calculate'', ''datetime'']"

definition systemPrompt :: string where
  \<comment> \<open>persona, answer in Korean, use tools for live information, no tool for ordinary conversation\<close>
  "systemPrompt =
     [CHR 0xEB, CHR 0x8B, CHR 0xB9, CHR 0xEC, CHR 0x8B, CHR 0xA0, CHR 0xEC, CHR 0x9D, CHR 0x80] @
     '' '' @
     [CHR 0xEC, CHR 0xB9, CHR 0x9C, CHR 0xEC, CHR 0xA0, CHR 0x88, CHR 0xED, CHR 0x95, CHR 0x98, CHR 0xEA, CHR 0xB3, CHR 0xA0] @
     '' '' @
     [CHR 0xEC, CHR 0x9C, CHR 0xA0, CHR 0xEB, CHR 0x8A, CHR 0xA5, CHR 0xED, CHR 0x95, CHR 0x9C] @
     '' AI '' @
     [CHR 0xEC, CHR 0x96, CHR 0xB4, CHR 0xEC, CHR 0x8B, CHR 0x9C, CHR 0xEC, CHR 0x8A, CHR 0xA4, CHR 0xED, CHR 0x84, CHR 0xB4, CHR 0xED, CHR 0x8A, CHR 0xB8, CHR 0xEC, CHR 0x9E, CHR 0x85, CHR 0xEB, CHR 0x8B, CHR 0x88, CHR 0xEB, CHR 0x8B, CHR 0xA4] @
     ''. '' @
     [CHR 0xED, CHR 0x95, CHR 0x9C, CHR 0xEA, CHR 0xB5, CHR 0xAD, CHR 0xEC, CHR 0x96, CHR 0xB4, CHR 0xEB, CHR 0xA1, CHR 0x9C] @
     '' '' @
     [CHR 0xEB, CHR 0x8B, CHR 0xB5, CHR 0xEB, CHR 0xB3, CHR 0x80, CHR 0xED, CHR 0x95, CHR 0x98, CHR 0xEC, CHR 0x84, CHR 0xB8, CHR 0xEC, CHR 0x9A, CHR 0x94] @
     ''. '' @
     [CHR 0xEC, CHR 0x82, CHR 0xAC, CHR 0xEC, CHR 0x9A, CHR 0xA9, CHR 0xEC, CHR 0x9E, CHR 0x90, CHR 0xEC, CHR 0x9D, CHR 0x98] @
     '' '' @
     [CHR 0xEC, CHR 0xA7, CHR 0x88, CHR 0xEB, CHR 0xAC, CHR 0xB8, CHR 0xEC, CHR 0x97, CHR 0x90] @
     '' '' @
     [CHR 0xEB, CHR 0x94, CHR 0xB0, CHR 0xEB, CHR 0x9D, CHR 0xBC] @
     '' '' @
     [CHR 0xEC, CHR 0xA0, CHR 0x81, CHR 0xEC, CHR 0xA0, CHR 0x88, CHR 0xED, CHR 0x95, CHR 0x9C] @
     '' '' @
     [CHR 0xEB, CHR 0x8F, CHR 0x84, CHR 0xEA, CHR 0xB5, CHR 0xAC] @
     ''('' @
     [CHR 0xED, CHR 0x95, CHR 0xA8, CHR 0xEC, CHR 0x88, CHR 0x98] @
     '')'' @
     [CHR 0xEB, CHR 0xA5, CHR 0xBC] @
     '' '' @
     [CHR 0xEC, CHR 0x82, CHR 0xAC, CHR 0xEC, CHR 0x9A, CHR 0xA9, CHR 0xED, CHR 0x95, CHR 0x98, CHR 0xEC, CHR 0x97, CHR 0xAC] @
     '' '' @
     [CHR 0xEC, CHR 0x8B, CHR 0xA4, CHR 0xEC, CHR 0x8B, CHR 0x9C, CHR 0xEA, CHR 0xB0, CHR 0x84] @
     '' '' @
     [CHR 0xEC, CHR 0xA0, CHR 0x95, CHR 0xEB, CHR 0xB3, CHR 0xB4, CHR 0xEB, CHR 0xA5, CHR 0xBC] @
     '' '' @
     [CHR 0xEC, CHR 0xA0, CHR 0x9C, CHR 0xEA, CHR 0xB3, CHR 0xB5, CHR 0xED, CHR 0x95, CHR 0x98, CHR 0xEC, CHR 0x84, CHR 0xB8, CHR 0xEC, CHR 0x9A, CHR 0x94] @
     ''. '' @
     [CHR 0xEB, CHR 0x8F, CHR 0x84, CHR 0xEA, CHR 0xB5, CHR 0xAC, CHR 0xEB, CHR 0xA5, CHR 0xBC] @
     '' '' @
     [CHR 0xEC, CHR 0x82, CHR 0xAC, CHR 0xEC, CHR 0x9A, CHR 0xA9, CHR 0xED, CHR 0x95, CHR 0xA0] @
     '' '' @
     [CHR 0xED, CHR 0x95, CHR 0x84, CHR 0xEC, CHR 0x9A, CHR 0x94] @
     '' '' @
     [CHR 0xEC, CHR 0x97, CHR 0x86, CHR 0xEB, CHR 0x8A, CHR 0x94] @
     '' '' @
     [CHR 0xEC, CHR 0x9D, CHR 0xBC, CHR 0xEB, CHR 0xB0, CHR 0x98] @
     '' '' @
     [CHR 0xEB, CHR 0x8C, CHR 0x80, CHR 0xED, CHR 0x99, CHR 0x94, CHR 0xEC, CHR 0x97, CHR 0x90, CHR 0xEB, CHR 0x8A, CHR 0x94] @
     '' '' @
     [CHR 0xEB, CHR 0x8F, CHR 0x84, CHR 0xEA, CHR 0xB5, CHR 0xAC, CHR 0xEB, CHR 0xA5, CHR 0xBC] @
     '' '' @
     [CHR 0xED, CHR 0x98, CHR 0xB8, CHR 0xEC, CHR 0xB6, CHR 0x9C, CHR 0xED, CHR 0x95, CHR 0x98, CHR 0xEC, CHR 0xA7, CHR 0x80] @
     '' '' @
     [CHR 0xEB, CHR 0xA7, CHR 0x88, CHR 0xEC, CHR 0x84, CHR 0xB8, CHR 0xEC, CHR 0x9A, CHR 0x94] @
     ''.''"

definition question_label :: string where
  \<comment> \<open>two newlines and the label User question:\<close>
  "question_label =
     [CHR 0x0A, CHR 0x0A, CHR 0xEC, CHR 0x82, CHR 0xAC, CHR 0xEC, CHR 0x9A, CHR 0xA9, CHR 0xEC, CHR 0x9E, CHR 0x90] @
     '' '' @
     [CHR 0xEC, CHR 0xA7, CHR 0x88, CHR 0xEB, CHR 0xAC, CHR 0xB8] @
     '': ''"

definition api_error_prefix :: string where
  \<comment> \<open>A Gemini API error occurred:\<close>
  "api_error_prefix =
     ''Gemini API '' @
     [CHR 0xEC, CHR 0x98, CHR 0xA4, CHR 0xEB, CHR 0xA5, CHR 0x98, CHR 0xEA, CHR 0xB0, CHR 0x80] @
     '' '' @
     [CHR 0xEB, CHR 0xB0, CHR 0x9C, CHR 0xEC, CHR 0x83, CHR 0x9D, CHR 0xED, CHR 0x96, CHR 0x88, CHR 0xEC, CHR 0x8A, CHR 0xB5, CHR 0xEB, CHR 0x8B, CHR 0x88, CHR 0xEB, CHR 0x8B, CHR 0xA4] @
     '': ''"

definition no_response_msg :: string where
  \<comment> \<open>No response was received from Gemini.\<close>
  "no_response_msg =
     ''Gemini'' @
     [CHR 0xEC, CHR 0x97, CHR 0x90, CHR 0xEC, CHR 0x84, CHR 0x9C] @
     '' '' @
     [CHR 0xEC, CHR 0x9D, CHR 0x91, CHR 0xEB, CHR 0x8B, CHR 0xB5, CHR 0xEC, CHR 0x9D, CHR 0x84] @
     '' '' @
     [CHR 0xEB, CHR 0xB0, CHR 0x9B, CHR 0xEC, CHR 0xA7, CHR 0x80] @
     '' '' @
     [CHR 0xEB, CHR 0xAA, CHR 0xBB, CHR 0xED, CHR 0x96, CHR 0x88, CHR 0xEC, CHR 0x8A, CHR 0xB5, CHR 0xEB, CHR 0x8B, CHR 0x88, CHR 0xEB, CHR 0x8B, CHR 0xA4] @
     ''.''"

definition cannot_process_msg :: string where
  \<comment> \<open>The response cannot be processed.\<close>
  "cannot_process_msg =
     [CHR 0xEC, CHR 0x9D, CHR 0x91, CHR 0xEB, CHR 0x8B, CHR 0xB5, CHR 0xEC, CHR 0x9D, CHR 0x84] @
     '' '' @
     [CHR 0xEC, CHR 0xB2, CHR 0x98, CHR 0xEB, CHR 0xA6, CHR 0xAC, CHR 0xED, CHR 0x95, CHR 0xA0] @
     '' '' @
     [CHR 0xEC, CHR 0x88, CHR 0x98] @
     '' '' @
     [CHR 0xEC, CHR 0x97, CHR 0x86, CHR 0xEC, CHR 0x8A, CHR 0xB5, CHR 0xEB, CHR 0x8B, CHR 0x88, CHR 0xEB, CHR 0x8B, CHR 0xA4] @
     ''.''"

definition budget_exhausted_msg :: string where
  \<comment> \<open>The tool call limit was reached. Please try the question again.\<close>
  "budget_exhausted_msg =
     [CHR 0xEB, CHR 0x8F, CHR 0x84, CHR 0xEA, CHR 0xB5, CHR 0xAC] @
     '' '' @
     [CHR 0xED, CHR 0x98, CHR 0xB8, CHR 0xEC, CHR 0xB6, CHR 0x9C] @
     '' '' @
     [CHR 0xED, CHR 0x9A, CHR 0x9F, CHR 0xEC, CHR 0x88, CHR 0x98] @
     '' '' @
     [CHR 0xEC, CHR 0xA0, CHR 0x9C, CHR 0xED, CHR 0x95, CHR 0x9C, CHR 0xEC, CHR 0x97, CHR 0x90] @
     '' '' @
     [CHR 0xEB, CHR 0x8F, CHR 0x84, CHR 0xEB, CHR 0x8B, CHR 0xAC, CHR 0xED, CHR 0x96, CHR 0x88, CHR 0xEC, CHR 0x8A, CHR 0xB5, CHR 0xEB, CHR 0x8B, CHR 0x88, CHR 0xEB, CHR 0x8B, CHR 0xA4] @
     ''. '' @
     [CHR 0xEC, CHR 0xA7, CHR 0x88, CHR 0xEB, CHR 0xAC, CHR 0xB8, CHR 0xEC, CHR 0x9D, CHR 0x84] @
     '' '' @
     [CHR 0xEB, CHR 0x8B, CHR 0xA4, CHR 0xEC, CHR 0x8B, CHR 0x9C] @
     '' '' @
     [CHR 0xEC, CHR 0x8B, CHR 0x9C, CHR 0xEB, CHR 0x8F, CHR 0x84, CHR 0xED, CHR 0x95, CHR 0xB4, CHR 0xEC, CHR 0xA3, CHR 0xBC, CHR 0xEC, CHR 0x84, CHR 0xB8, CHR 0xEC, CHR 0x9A, CHR 0x94] @
     ''.''"

definition unknown_tool_prefix :: string where
  \<comment> \<open>Unknown tool:\<close>
  "unknown_tool_prefix =
     [CHR 0xEC, CHR 0x95, CHR 0x8C] @
     '' '' @
     [CHR 0xEC, CHR 0x88, CHR 0x98] @
     '' '' @
     [CHR 0xEC, CHR 0x97, CHR 0x86, CHR 0xEB, CHR 0x8A, CHR 0x94] @
     '' '' @
     [CHR 0xEB, CHR 0x8F, CHR 0x84, CHR 0xEA, CHR 0xB5, CHR 0xAC] @
     '': ''"

definition tool_error_prefix :: string where
  \<comment> \<open>Tool execution error (\<close>
  "tool_error_prefix =
     [CHR 0xEB, CHR 0x8F, CHR 0x84, CHR 0xEA, CHR 0xB5, CHR 0xAC] @
     '' '' @
     [CHR 0xEC, CHR 0x8B, CHR 0xA4, CHR 0xED, CHR 0x96, CHR 0x89] @
     '' '' @
     [CHR 0xEC, CHR 0x98, CHR 0xA4, CHR 0xEB, CHR 0xA5, CHR 0x98] @
     '' (''"

definition division_by_zero_msg :: string where
  \<comment> \<open>Error: cannot divide by zero\<close>
  "division_by_zero_msg =
     [CHR 0xEC, CHR 0x98, CHR 0xA4, CHR 0xEB, CHR 0xA5, CHR 0x98] @
     '': 0'' @
     [CHR 0xEC, CHR 0x9C, CHR 0xBC, CHR 0xEB, CHR 0xA1, CHR 0x9C] @
     '' '' @
     [CHR 0xEB, CHR 0x82, CHR 0x98, CHR 0xEB, CHR 0x88, CHR 0x8C] @
     '' '' @
     [CHR 0xEC, CHR 0x88, CHR 0x98] @
     '' '' @
     [CHR 0xEC, CHR 0x97, CHR 0x86, CHR 0xEC, CHR 0x8A, CHR 0xB5, CHR 0xEB, CHR 0x8B, CHR 0x88, CHR 0xEB, CHR 0x8B, CHR 0xA4]"

definition unknown_operation_prefix :: string where
  \<comment> \<open>Unknown operation:\<close>
  "unknown_operation_prefix =
     [CHR 0xEC, CHR 0x95, CHR 0x8C] @
     '' '' @
     [CHR 0xEC, CHR 0x88, CHR 0x98] @
     '' '' @
     [CHR 0xEC, CHR 0x97, CHR 0x86, CHR 0xEB, CHR 0x8A, CHR 0x94] @
     '' '' @
     [CHR 0xEC, CHR 0x97, CHR 0xB0, CHR 0xEC, CHR 0x82, CHR 0xB0] @
     '': ''"

section \<open>tools.ts: executeCalculate\<close>

text \<open>
  JavaScript numbers are IEEE doubles. The arithmetic, the test \<open>b === 0\<close> and the
  conversion of a number to a string by a template literal are parameters.
\<close>

record 'n number_ops =
  num_add :: "'n \<Rightarrow> 'n \<Rightarrow> 'n"
  num_sub :: "'n \<Rightarrow> 'n \<Rightarrow> 'n"
  num_mul :: "'n \<Rightarrow> 'n \<Rightarrow> 'n"
  num_div :: "'n \<Rightarrow> 'n \<Rightarrow> 'n"
  is_zero :: "'n \<Rightarrow> bool"
  num_to_string :: "'n \<Rightarrow> string"

record 'n calculate_args =
  operation :: string
  arg_a :: 'n
  arg_b :: 'n

definition calculate_report :: "'n number_ops \<Rightarrow> 'n calculate_args \<Rightarrow> 'n \<Rightarrow> string" where
  \<comment> \<open>the template literal of the last line of executeCalculate\<close>
  "calculate_report N args result =
     num_to_string N (arg_a args) @ '' '' @ operation args @ '' '' @
     num_to_string N (arg_b args) @ '' = '' @ num_to_string N result"

definition executeCalculate :: "'n number_ops \<Rightarrow> 'n calculate_args \<Rightarrow> exn + string" where
  "executeCalculate N args =
     (if operation args = ''add'' then
        Inr (calculate_report N args (num_add N (arg_a args) (arg_b args)))
      else if operation args = ''subtract'' then
        Inr (calculate_report N args (num_sub N (arg_a args) (arg_b args)))
      else if operation args = ''multiply'' then
        Inr (calculate_report N args (num_mul N (arg_a args) (arg_b args)))
      else if operation args = ''divide'' then
        (if is_zero N (arg_b args) then Inr division_by_zero_msg
         else Inr (calculate_report N args (num_div N (arg_a args) (arg_b args))))
      else Inr (unknown_operation_prefix @ operation args))"

section \<open>chat.ts: executeTool\<close>

text \<open>
  The \<open>switch\<close> on the tool name inside \<open>try\<close>, and the \<open>catch\<close> that turns a thrown
  error into a string.
\<close>

definition dispatch ::
  "'w executors \<Rightarrow> string \<Rightarrow> json option \<Rightarrow> string \<Rightarrow> 'w \<Rightarrow> (exn + string) \<times> 'w" where
  \<comment> \<open>the body of the \<open>try\<close> block\<close>
  "dispatch T name args apiKey w =
     (if name = ''weather'' then weather_tool T args w
      else if name = ''exchange_rate'' then exchange_rate_tool T args w
      else if name = ''translate'' then translate_tool T args apiKey w
      else if name = ''summarize'' then summarize_tool T args apiKey w
      else if name = ''web_search'' then web_search_tool T args w
      else if name = ''fetch_url'' then fetch_url_tool T args w
      else if name = ''calculate'' then calculate_tool T args w
      else if name = ''datetime'' then datetime_tool T args w
      else (Inr (unknown_tool_prefix @ name), w))"

definition executeTool ::
  "'w executors \<Rightarrow> string \<Rightarrow> json option \<Rightarrow> string \<Rightarrow> 'w \<Rightarrow> (exn + string) \<times> 'w" where
  "executeTool T name args apiKey w =
     (case dispatch T name args apiKey w of
        (Inr result, w') \<Rightarrow> (Inr result, w')
      | (Inl err, w') \<Rightarrow> (Inr (tool_error_prefix @ name @ ''): '' @ message err), w'))"

section \<open>chat.ts: handleChat\<close>

text \<open>Lines 179 to 206: the transcript built from the history and the new message.\<close>

definition text_part :: "string \<Rightarrow> part" where
  \<comment> \<open>\<open>{text: s}\<close>\<close>
  "text_part s =
     \<lparr>ptext = Some s, functionCall = None, functionResponse = None, other_fields = []\<rparr>"

definition history_turn :: "ChatMessage \<Rightarrow> turn" where
  "history_turn msg =
     \<lparr>role = (if msg_role msg = Assistant then Model else User),
      parts = [text_part (msg_text msg)]\<rparr>"

definition text_turn :: "string \<Rightarrow> turn" where
  \<comment> \<open>\<open>{role: "user", parts: [{text: s}]}\<close>\<close>
  "text_turn s = \<lparr>role = User, parts = [text_part s]\<rparr>"

definition build_contents :: "ChatMessage list \<Rightarrow> string \<Rightarrow> turn list" where
  "build_contents history msg =
     (let contents = map history_turn history in
      if length contents = 0
      then contents @ [text_turn (systemPrompt @ question_label @ msg)]
      else contents @ [text_turn msg])"

text \<open>
  One pass through the body of the \<open>for\<close> loop ends in one of three ways: an exception
  leaves handleChat (with \<open>toolsUsed\<close> as it is at that moment), a \<open>return\<close> ends it
  with a reply, or \<open>continue\<close> goes to the next pass with the transcript and the list
  of tool names extended. The name is pushed to \<open>toolsUsed\<close> before executeTool is
  called, the two turns are pushed to \<open>contents\<close> after it.
\<close>

datatype 'w flow =
    Throw exn "string list" 'w
  | Return ChatResponse 'w
  | Continue "turn list" "string list" 'w

definition first_candidate_parts :: "gemini_data \<Rightarrow> part list option" where
  \<comment> \<open>\<open>geminiData.candidates?.[0]?.content?.parts\<close>\<close>
  "first_candidate_parts d =
     (case candidates d of
        None \<Rightarrow> None
      | Some [] \<Rightarrow> None
      | Some (c # _) \<Rightarrow>
          (case candidate_content c of
             None \<Rightarrow> None
           | Some ct \<Rightarrow> content_parts ct))"

fun find_functionCall :: "part list \<Rightarrow> function_call option" where
  \<comment> \<open>\<open>parts.find((p) => p.functionCall)\<close>, then its \<open>.functionCall\<close>: an object is truthy\<close>
  "find_functionCall [] = None"
| "find_functionCall (p # ps) =
     (case functionCall p of
        Some fc \<Rightarrow> Some fc
      | None \<Rightarrow> find_functionCall ps)"

fun find_text :: "part list \<Rightarrow> string option" where
  \<comment> \<open>\<open>parts.find((p) => p.text)\<close>, then its \<open>.text\<close>: the empty string is falsy\<close>
  "find_text [] = None"
| "find_text (p # ps) =
     (case ptext p of
        Some s \<Rightarrow> if s \<noteq> [] then Some s else find_text ps
      | None \<Rightarrow> find_text ps)"

definition result_turn :: "string \<Rightarrow> string \<Rightarrow> turn" where
  \<comment> \<open>\<open>{role: "user", parts: [{functionResponse: {name, response: {result}}}]}\<close>\<close>
  "result_turn name toolResult =
     \<lparr>role = User,
      parts = [\<lparr>ptext = None, functionCall = None,
                functionResponse = Some \<lparr>fr_name = name, fr_result = toolResult\<rparr>,
                other_fields = []\<rparr>]\<rparr>"

definition service_error_reply :: "'w env \<Rightarrow> gemini_data \<Rightarrow> string" where
  \<comment> \<open>\<open>geminiData.error?.message || JSON.stringify(geminiData)\<close> after the prefix\<close>
  "service_error_reply E d =
     api_error_prefix @
     (case error_message d of
        None \<Rightarrow> JSON_stringify E d
      | Some m \<Rightarrow> if m \<noteq> [] then m else JSON_stringify E d)"

definition gemini_request :: "string \<Rightarrow> turn list \<Rightarrow> request" where
  \<comment> \<open>the URL and the body of the POST to \<open>generateContent\<close>\<close>
  "gemini_request apiKey contents =
     \<lparr>req_model = GEMINI_MODEL, req_key = apiKey,
      req_contents = contents, req_tools = functionDeclarations\<rparr>"

definition request_body :: "'w env \<Rightarrow> request \<Rightarrow> string" where
  \<comment> \<open>the bytes of \<open>contents\<close> inside \<open>JSON.stringify({contents, tools})\<close>, the body sent\<close>
  "request_body E req = JSON_stringify_contents E (req_contents req)"

definition iteration ::
  "'w env \<Rightarrow> string \<Rightarrow> turn list \<Rightarrow> string list \<Rightarrow> 'w \<Rightarrow> 'w flow" where
  "iteration E apiKey contents toolsUsed w =
     (case fetch E (gemini_request apiKey contents) w of
        (Rejects err, w1) \<Rightarrow> Throw err toolsUsed w1
      | (Resolves geminiRes, w1) \<Rightarrow>
          (case json_body geminiRes of
             Inl err \<Rightarrow> Throw err toolsUsed w1
           | Inr geminiData \<Rightarrow>
               if \<not> ok geminiRes then
                 Return \<lparr>reply = service_error_reply E geminiData,
                         tools_used = toolsUsed\<rparr> w1
               else
                 (case first_candidate_parts geminiData of
                    None \<Rightarrow> Return \<lparr>reply = no_response_msg, tools_used = toolsUsed\<rparr> w1
                  | Some ps \<Rightarrow>
                      if length ps = 0 then
                        Return \<lparr>reply = no_response_msg, tools_used = toolsUsed\<rparr> w1
                      else
                        (case find_functionCall ps of
                           Some fc \<Rightarrow>
                             (case executeTool (tools E) (fc_name fc) (fc_args fc) apiKey w1 of
                                (Inl err, w2) \<Rightarrow> Throw err (toolsUsed @ [fc_name fc]) w2
                              | (Inr toolResult, w2) \<Rightarrow>
                                  Continue
                                    (contents @
                                       [\<lparr>role = Model, parts = ps\<rparr>,
                                        result_turn (fc_name fc) toolResult])
                                    (toolsUsed @ [fc_name fc]) w2)
                         | None \<Rightarrow>
                             (case find_text ps of
                                Some t \<Rightarrow> Return \<lparr>reply = t, tools_used = toolsUsed\<rparr> w1
                              | None \<Rightarrow>
                                  Return \<lparr>reply = cannot_process_msg,
                                          tools_used = toolsUsed\<rparr> w1)))))"

text \<open>
  A run of handleChat: what it returns or throws, and the final values of its local
  variables \<open>contents\<close> and \<open>toolsUsed\<close>, the transcript sent with each completion call
  (in order), and the state of the world it leaves.
\<close>

record 'w session =
  outcome :: "exn + ChatResponse"
  contents :: "turn list"
  toolsUsed :: "string list"
  requests :: "turn list list"
  world :: 'w

text \<open>
  The loop \<open>for (let i = 0; i < MAX_TOOL_CALLS; i++)\<close>, by recursion on the number of
  passes left, \<open>MAX_TOOL_CALLS - i\<close>. When none is left the statement after the loop
  returns the budget-exhausted reply.
\<close>

fun loop ::
  "'w env \<Rightarrow> string \<Rightarrow> nat \<Rightarrow> turn list \<Rightarrow> string list \<Rightarrow> turn list list \<Rightarrow> 'w \<Rightarrow> 'w session" where
  "loop E apiKey 0 cs tu reqs w =
     \<lparr>outcome = Inr \<lparr>reply = budget_exhausted_msg, tools_used = tu\<rparr>,
      contents = cs, toolsUsed = tu, requests = reqs, world = w\<rparr>"
| "loop E apiKey (Suc k) cs tu reqs w =
     (case iteration E apiKey cs tu w of
        Throw err tu' w' \<Rightarrow>
          \<lparr>outcome = Inl err, contents = cs, toolsUsed = tu',
           requests = reqs @ [cs], world = w'\<rparr>
      | Return r w' \<Rightarrow>
          \<lparr>outcome = Inr r, contents = cs, toolsUsed = tu,
           requests = reqs @ [cs], world = w'\<rparr>
      | Continue cs' tu' w' \<Rightarrow> loop E apiKey k cs' tu' (reqs @ [cs]) w')"

definition run_chat :: "'w env \<Rightarrow> string \<Rightarrow> ChatMessage list \<Rightarrow> string \<Rightarrow> 'w \<Rightarrow> 'w session" where
  "run_chat E msg history apiKey w =
     loop E apiKey MAX_TOOL_CALLS (build_contents history msg) [] [] w"

definition handleChat ::
  "'w env \<Rightarrow> string \<Rightarrow> ChatMessage list \<Rightarrow> string \<Rightarrow> 'w \<Rightarrow> (exn + ChatResponse) \<times> 'w" where
  "handleChat E msg history apiKey w =
     (let s = run_chat E msg history apiKey w in (outcome s, world s))"

section \<open>index.ts: the route POST /api/chat\<close>

text \<open>
  The request body after \<open>request.json()\<close>, an object: \<open>message\<close> is any JSON value
  or absent; \<open>history\<close> is a list of messages, or \<open>None\<close> when it is absent or falsy.
  \<open>request.json()\<close> may throw instead. The worker's configuration holds
  \<open>GEMINI_API_KEY\<close> or not.
\<close>

record chat_body =
  body_message :: "json option"
  body_history :: "ChatMessage list option"

datatype http_response =
    Json200 ChatResponse
  | Json400 string
  | Json500 string

definition is_string :: "json \<Rightarrow> bool" where
  \<comment> \<open>\<open>typeof v === "string"\<close>\<close>
  "is_string v = (case v of JStr s \<Rightarrow> True | _ \<Rightarrow> False)"

definition api_chat ::
  "'w env \<Rightarrow> string option \<Rightarrow> exn + chat_body \<Rightarrow> 'w \<Rightarrow> http_response \<times> 'w" where
  "api_chat E GEMINI_API_KEY parsed w =
     (case parsed of
        Inl err \<Rightarrow> (Json500 (message err), w)
      | Inr body \<Rightarrow>
          (case body_message body of
             None \<Rightarrow> (Json400 ''message is required'', w)
           | Some (JStr m) \<Rightarrow>
               if \<not> truthy (JStr m) then (Json400 ''message is required'', w)
               else
                 (case GEMINI_API_KEY of
                    None \<Rightarrow> (Json500 ''GEMINI_API_KEY not configured'', w)
                  | Some apiKey \<Rightarrow>
                      if apiKey = [] then (Json500 ''GEMINI_API_KEY not configured'', w)
                      else
                        (case handleChat E m
                                (case body_history body of None \<Rightarrow> [] | Some h \<Rightarrow> h)
                                apiKey w of
                           (Inr result, w') \<Rightarrow> (Json200 result, w')
                         | (Inl err, w') \<Rightarrow> (Json500 (message err), w')))
           | Some v \<Rightarrow> (Json400 ''message is required'', w)))"

section \<open>Reading a transcript\<close>

text \<open>
  A completion response that asks for a tool: the call resolved with a success status,
  the body parsed, and the first candidate's segment list holds a function call.
\<close>

definition tool_call_response :: "fetch_result \<Rightarrow> bool" where
  "tool_call_response fr =
     (case fr of
        Rejects err \<Rightarrow> False
      | Resolves res \<Rightarrow>
          ok res \<and>
          (case json_body res of
             Inl err \<Rightarrow> False
           | Inr d \<Rightarrow>
               (case first_candidate_parts d of
                  None \<Rightarrow> False
                | Some ps \<Rightarrow> find_functionCall ps \<noteq> None)))"

text \<open>A call that resolved with a body that parsed as JSON, whatever its status.\<close>

definition parsed_response :: "fetch_result \<Rightarrow> bool" where
  "parsed_response fr =
     (case fr of
        Rejects err \<Rightarrow> False
      | Resolves res \<Rightarrow> (case json_body res of Inl err \<Rightarrow> False | Inr d \<Rightarrow> True))"

text \<open>A user-role turn that is one tool-result segment with the given name.\<close>

definition is_result_turn :: "string \<Rightarrow> turn \<Rightarrow> bool" where
  "is_result_turn name t =
     (role t = User \<and>
      (case parts t of
         [p] \<Rightarrow> (case functionResponse p of
                   Some fr \<Rightarrow> fr_name fr = name
                 | None \<Rightarrow> False)
       | _ \<Rightarrow> False))"

text \<open>
  Reads a list of turns as a sequence of pairs, a model turn that requests a tool
  followed by the result turn of that tool, and gives the requested names in order;
  \<open>None\<close> when the list is not such a sequence.
\<close>

fun tool_pairs :: "turn list \<Rightarrow> string list option" where
  "tool_pairs [] = Some []"
| "tool_pairs [t] = None"
| "tool_pairs (m # u # rest) =
     (case find_functionCall (parts m) of
        None \<Rightarrow> None
      | Some fc \<Rightarrow>
          if role m = Model \<and> is_result_turn (fc_name fc) u
          then map_option ((#) (fc_name fc)) (tool_pairs rest)
          else None)"

text \<open>
  A transcript that is the initial transcript \<open>init\<close> followed by complete pairs gives
  the names of the pairs.
\<close>

definition complete_pairs :: "turn list \<Rightarrow> turn list \<Rightarrow> string list option" where
  "complete_pairs init c =
     (if take (length init) c = init then tool_pairs (drop (length init) c) else None)"

text \<open>
  The segment list one would get by rebuilding a tool-call turn from the two fields
  handleChat reads out of the response, the name and the arguments of the call.
\<close>

definition reconstructed :: "function_call \<Rightarrow> part list" where
  "reconstructed fc =
     [\<lparr>ptext = None,
       functionCall = Some \<lparr>fc_name = fc_name fc, fc_args = fc_args fc, fc_other = []\<rparr>,
       functionResponse = None, other_fields = []\<rparr>]"

section \<open>Sample collaborators\<close>

text \<open>
  A world that counts the completion calls made so far, a completion service that
  answers the \<open>i\<close>-th call by a script, and executors of which \<open>fetch_url\<close> throws.
\<close>

definition sample_tools :: "nat executors" where
  "sample_tools =
     \<lparr>weather_tool = (\<lambda>args w. (Inr ''5 C, clear'', w)),
      exchange_rate_tool = (\<lambda>args w. (Inr ''1 USD = 1300 KRW'', w)),
      translate_tool = (\<lambda>args apiKey w. (Inr ''hello'', w)),
      summarize_tool = (\<lambda>args apiKey w. (Inr ''summary'', w)),
      web_search_tool = (\<lambda>args w. (Inr ''no results'', w)),
      fetch_url_tool = (\<lambda>args w. (Inl (Error ''fetch failed''), w)),
      calculate_tool = (\<lambda>args w. (Inr ''1 add 2 = 3'', w)),
      datetime_tool = (\<lambda>args w. (Inr ''now'', w))\<rparr>"

text \<open>
  \<open>JSON.stringify\<close> without indentation on a value as \<open>JSON.parse\<close> gives it: no white
  space outside strings, the members of an object in the order the object holds them,
  strings in double quotes with the escapes of the language. Numbers are written by a
  function given as a parameter.
\<close>

definition hex_digit :: "nat \<Rightarrow> char" where
  "hex_digit n = ''0123456789abcdef'' ! n"

definition escape_char :: "char \<Rightarrow> string" where
  "escape_char c =
     (if c = CHR 0x22 then [CHR 0x5C, CHR 0x22]
      else if c = CHR 0x5C then [CHR 0x5C, CHR 0x5C]
      else if c = CHR 0x08 then [CHR 0x5C, CHR ''b'']
      else if c = CHR 0x0C then [CHR 0x5C, CHR ''f'']
      else if c = CHR 0x0A then [CHR 0x5C, CHR ''n'']
      else if c = CHR 0x0D then [CHR 0x5C, CHR ''r'']
      else if c = CHR 0x09 then [CHR 0x5C, CHR ''t'']
      else if (of_char c :: nat) < 32
        then [CHR 0x5C, CHR ''u'', CHR ''0'', CHR ''0'',
              hex_digit (of_char c div 16), hex_digit (of_char c mod 16)]
      else [c])"

definition quote :: "string \<Rightarrow> string" where
  "quote s = [CHR 0x22] @ concat (map escape_char s) @ [CHR 0x22]"

fun json_text :: "(rat \<Rightarrow> string) \<Rightarrow> json \<Rightarrow> string"
  and json_items :: "(rat \<Rightarrow> string) \<Rightarrow> json list \<Rightarrow> string"
  and json_members :: "(rat \<Rightarrow> string) \<Rightarrow> (string \<times> json) list \<Rightarrow> string" where
  "json_text N JNull = ''null''"
| "json_text N (JBool b) = (if b then ''true'' else ''false'')"
| "json_text N (JNum r) = N r"
| "json_text N (JStr s) = quote s"
| "json_text N (JArr xs) = ''['' @ json_items N xs @ '']''"
| "json_text N (JObj kvs) = ''{'' @ json_members N kvs @ ''}''"
| "json_items N [] = []"
| "json_items N [x] = json_text N x"
| "json_items N (x # y # ys) = json_text N x @ '','' @ json_items N (y # ys)"
| "json_members N [] = []"
| "json_members N [(k, v)] = quote k @ '':'' @ json_text N v"
| "json_members N ((k, v) # m # ms) =
     quote k @ '':'' @ json_text N v @ '','' @ json_members N (m # ms)"

text \<open>
  The objects that are serialised. A turn is built by the code as \<open>{role, parts}\<close>, a
  text segment as \<open>{text}\<close> and a result segment as
  \<open>{functionResponse: {name, response: {result}}}\<close>. A segment received from the
  service has its keys in the order of the body received; \<open>part_json\<close> puts them in the
  order text, functionCall (name, args, then the others), functionResponse, then the
  others, and is exact for a body that has them in this order, as the samples have.
\<close>

definition part_json :: "part \<Rightarrow> json" where
  "part_json p =
     JObj ((case ptext p of Some s \<Rightarrow> [(''text'', JStr s)] | None \<Rightarrow> []) @
           (case functionCall p of
              Some fc \<Rightarrow>
                [(''functionCall'',
                  JObj ([(''name'', JStr (fc_name fc))] @
                        (case fc_args fc of Some a \<Rightarrow> [(''args'', a)] | None \<Rightarrow> []) @
                        fc_other fc))]
            | None \<Rightarrow> []) @
           (case functionResponse p of
              Some fr \<Rightarrow>
                [(''functionResponse'',
                  JObj [(''name'', JStr (fr_name fr)),
                        (''response'', JObj [(''result'', JStr (fr_result fr))])])]
            | None \<Rightarrow> []) @
           other_fields p)"

definition turn_json :: "turn \<Rightarrow> json" where
  "turn_json t =
     JObj [(''role'', JStr (case role t of User \<Rightarrow> ''user'' | Model \<Rightarrow> ''model'')),
           (''parts'', JArr (map part_json (parts t)))]"

definition data_json :: "gemini_data \<Rightarrow> json" where
  "data_json d =
     JObj ((case error_message d of
              Some m \<Rightarrow> [(''error'', JObj [(''message'', JStr m)])]
            | None \<Rightarrow> []) @
           (case candidates d of
              Some cs \<Rightarrow>
                [(''candidates'',
                  JArr (map (\<lambda>c. JObj (case candidate_content c of
                                 Some ct \<Rightarrow>
                                   [(''content'',
                                     JObj (case content_parts ct of
                                             Some ps \<Rightarrow> [(''parts'', JArr (map part_json ps))]
                                           | None \<Rightarrow> []))]
                               | None \<Rightarrow> [])) cs))]
            | None \<Rightarrow> []))"

text \<open>The samples hold no number; integers are written in decimal.\<close>

function decimal :: "nat \<Rightarrow> string" where
  "decimal n = (if n < 10 then [hex_digit n] else decimal (n div 10) @ [hex_digit (n mod 10)])"
  by pat_completeness auto
termination
  by (relation "measure id") auto

definition number_text :: "rat \<Rightarrow> string" where
  "number_text r = (if r < 0 then ''-'' else []) @ decimal (nat \<lfloor>\<bar>r\<bar>\<rfloor>)"

definition sample_stringify_contents :: "turn list \<Rightarrow> string" where
  "sample_stringify_contents cs = json_text number_text (JArr (map turn_json cs))"

definition sample_body_text :: "gemini_data \<Rightarrow> string" where
  "sample_body_text d = json_text number_text (data_json d)"

definition sample_env :: "(nat \<Rightarrow> fetch_result) \<Rightarrow> nat env" where
  "sample_env script =
     \<lparr>fetch = (\<lambda>req w. (script w, Suc w)),
      JSON_stringify = sample_body_text,
      JSON_stringify_contents = sample_stringify_contents,
      tools = sample_tools\<rparr>"

definition call_part :: "string \<Rightarrow> part" where
  \<comment> \<open>a function-call segment that carries a thoughtSignature\<close>
  "call_part name =
     \<lparr>ptext = None,
      functionCall = Some \<lparr>fc_name = name, fc_args = None, fc_other = []\<rparr>,
      functionResponse = None,
      other_fields = [(''thoughtSignature'', JStr ''c2lnbmF0dXJl'')]\<rparr>"

definition data_with_parts :: "part list \<Rightarrow> gemini_data" where
  \<comment> \<open>\<open>{candidates: [{content: {parts: ps}}]}\<close>\<close>
  "data_with_parts ps =
     \<lparr>error_message = None,
      candidates = Some [\<lparr>candidate_content = Some \<lparr>content_parts = Some ps\<rparr>\<rparr>]\<rparr>"

definition answer :: "bool \<Rightarrow> part list \<Rightarrow> fetch_result" where
  \<comment> \<open>a body sent without white space\<close>
  "answer status ps =
     Resolves \<lparr>ok = status,
               body_text = sample_body_text (data_with_parts ps),
               json_body = Inr (data_with_parts ps)\<rparr>"

text \<open>Scripts: the same answer to every call, or one answer first and another after.\<close>

definition always :: "fetch_result \<Rightarrow> nat \<Rightarrow> fetch_result" where
  "always a i = a"

definition two_step :: "fetch_result \<Rightarrow> fetch_result \<Rightarrow> nat \<Rightarrow> fetch_result" where
  "two_step a b i = (if i = 0 then a else b)"

definition service_error :: "string \<Rightarrow> fetch_result" where
  \<comment> \<open>a non-success status with a JSON body \<open>{error: {message}}\<close>\<close>
  "service_error m =
     Resolves \<lparr>ok = False,
               body_text = sample_body_text \<lparr>error_message = Some m, candidates = None\<rparr>,
               json_body = Inr \<lparr>error_message = Some m, candidates = None\<rparr>\<rparr>"

definition not_json :: fetch_result where
  \<comment> \<open>a non-success status with a body that is not JSON\<close>
  "not_json =
     Resolves \<lparr>ok = False,
               body_text = ''502 Bad Gateway'',
               json_body = Inl (Error ''Unexpected token in JSON'')\<rparr>"

text \<open>
  A body as the service sends it, with white space after the colons and commas, and
  what \<open>JSON.parse\<close> gives for it. The function call carries an \<open>id\<close> and the segment a
  \<open>thoughtSignature\<close>.
\<close>

definition pretty_parts_text :: string where
  \<open>pretty_parts_text =
     ''[{"functionCall": {"name": "weather", "args": {"city": "Seoul"}, "id": "call-1"}, '' @
     ''"thoughtSignature": "c2lnbmF0dXJl"}]''\<close>

definition pretty_body_text :: string where
  \<open>pretty_body_text =
     ''{"candidates": [{"content": {"parts": '' @ pretty_parts_text @ ''}}]}''\<close>

definition pretty_parts :: "part list" where
  "pretty_parts =
     [\<lparr>ptext = None,
       functionCall = Some \<lparr>fc_name = ''weather'',
                             fc_args = Some (JObj [(''city'', JStr ''Seoul'')]),
                             fc_other = [(''id'', JStr ''call-1'')]\<rparr>,
       functionResponse = None,
       other_fields = [(''thoughtSignature'', JStr ''c2lnbmF0dXJl'')]\<rparr>]"

definition pretty_response :: response where
  "pretty_response =
     \<lparr>ok = True,
      body_text = pretty_body_text,
      json_body = Inr (data_with_parts pretty_parts)\<rparr>"

text \<open>The bytes of the transcript sent with the call that follows it.\<close>

definition pretty_sent_text :: string where
  \<open>pretty_sent_text =
     ''[{"role":"user","parts":[{"text":"hi"}]},'' @
     ''{"role":"model","parts":[{"text":"hello"}]},'' @
     ''{"role":"user","parts":[{"text":"weather in Seoul?"}]},'' @
     ''{"role":"model","parts":[{"functionCall":{"name":"weather","args":{"city":"Seoul"},'' @
     ''"id":"call-1"},"thoughtSignature":"c2lnbmF0dXJl"}]},'' @
     ''{"role":"user","parts":[{"functionResponse":{"name":"weather",'' @
     ''"response":{"result":"5 C, clear"}}}]}]''\<close>

definition sample_history :: "ChatMessage list" where
  "sample_history =
     [\<lparr>msg_role = UserMsg, msg_text = ''hi''\<rparr>, \<lparr>msg_role = Assistant, msg_text = ''hello''\<rparr>]"

text \<open>
  Scenarios A to D of the specification, and some more: a tool that throws, a response
  with two function calls, a service error after one tool call, a refused connection,
  a body that is not JSON, the last two also after one tool call, an empty segment
  list, a segment list with only an empty text, and a body with white space.
\<close>

definition scenario_A :: "nat env" where
  "scenario_A =
     sample_env (two_step (answer True [call_part ''weather''])
                          (answer True [text_part ''It is 5 C and clear in Seoul.'']))"

definition scenario_B :: "nat env" where
  "scenario_B = sample_env (always (answer True [call_part ''weather'']))"

definition scenario_C :: "nat env" where
  "scenario_C = sample_env (always (service_error ''quota exceeded''))"

definition scenario_D :: "nat env" where
  "scenario_D =
     sample_env (two_step (answer True [call_part ''unknown_tool''])
                          (answer True [text_part ''I cannot do that'']))"

definition scenario_throwing_tool :: "nat env" where
  "scenario_throwing_tool =
     sample_env (two_step (answer True [call_part ''fetch_url''])
                          (answer True [text_part ''the page is down'']))"

definition scenario_two_calls :: "nat env" where
  "scenario_two_calls =
     sample_env (two_step (answer True [text_part ''checking'', call_part ''weather'',
                                        call_part ''calculate''])
                          (answer True [text_part ''done'']))"

definition scenario_late_error :: "nat env" where
  "scenario_late_error =
     sample_env (two_step (answer True [call_part ''weather''])
                          (service_error ''quota exceeded''))"

definition scenario_refused :: "nat env" where
  "scenario_refused = sample_env (always (Rejects (Error ''connection refused'')))"

definition scenario_not_json :: "nat env" where
  "scenario_not_json = sample_env (always not_json)"

definition scenario_late_refused :: "nat env" where
  "scenario_late_refused =
     sample_env (two_step (answer True [call_part ''weather''])
                          (Rejects (Error ''connection refused'')))"

definition scenario_late_not_json :: "nat env" where
  "scenario_late_not_json =
     sample_env (two_step (answer True [call_part ''weather'']) not_json)"

definition scenario_pretty :: "nat env" where
  "scenario_pretty =
     sample_env (two_step (Resolves pretty_response)
                          (answer True [text_part ''It is 5 C and clear in Seoul.'']))"

definition scenario_empty :: "nat env" where
  "scenario_empty = sample_env (always (answer True []))"

definition scenario_blank_text :: "nat env" where
  "scenario_blank_text = sample_env (always (answer True [text_part [], text_part []]))"

definition int_ops :: "int number_ops" where
  "int_ops =
     \<lparr>num_add = (+), num_sub = (-), num_mul = (*), num_div = (div),
      is_zero = (\<lambda>n. n = 0), num_to_string = (\<lambda>n. ''n'')\<rparr>"

section \<open>Properties of the loop\<close>

lemma executeTool_returns:
  "\<exists>s w'. executeTool T name args apiKey w = (Inr s, w')"
  by (simp add: executeTool_def split: prod.splits sum.splits)

lemma iteration_Return:
  "iteration E apiKey cs tu w = Return r w' \<Longrightarrow> tools_used r = tu"
  by (auto simp: iteration_def split: prod.splits fetch_result.splits sum.splits
      option.splits if_splits)

lemma iteration_Continue:
  assumes "iteration E apiKey cs tu w = Continue cs' tu' w'"
  shows "\<exists>ps fc res. find_functionCall ps = Some fc \<and>
           cs' = cs @ [\<lparr>role = Model, parts = ps\<rparr>, result_turn (fc_name fc) res] \<and>
           tu' = tu @ [fc_name fc]"
  using assms
  by (auto simp: iteration_def split: prod.splits fetch_result.splits sum.splits
      option.splits if_splits)

lemma iteration_tool_call:
  assumes "fetch E (gemini_request apiKey cs) w = (Resolves res, w1)"
    and "ok res" and "json_body res = Inr d"
    and "first_candidate_parts d = Some ps"
    and "find_functionCall ps = Some fc"
    and "executeTool (tools E) (fc_name fc) (fc_args fc) apiKey w1 = (Inr toolResult, w2)"
  shows "iteration E apiKey cs tu w =
           Continue (cs @ [\<lparr>role = Model, parts = ps\<rparr>, result_turn (fc_name fc) toolResult])
             (tu @ [fc_name fc]) w2"
proof -
  from assms(5) have "ps \<noteq> []" by auto
  with assms show ?thesis by (simp add: iteration_def)
qed

lemma executeTool_not_Inl: "executeTool T name args apiKey w \<noteq> (Inl err, w')"
  by (simp add: executeTool_def split: prod.splits sum.splits)

lemma iteration_Throw:
  "iteration E apiKey cs tu w = Throw err tu' w' \<Longrightarrow> tu' = tu"
  by (auto simp: iteration_def executeTool_not_Inl
      split: prod.splits fetch_result.splits sum.splits option.splits if_splits)

lemma iteration_no_Throw:
  assumes "parsed_response (fst (fetch E (gemini_request apiKey cs) w))"
  shows "iteration E apiKey cs tu w \<noteq> Throw err tu' w'"
proof -
  obtain fr w1 where f: "fetch E (gemini_request apiKey cs) w = (fr, w1)"
    by (cases "fetch E (gemini_request apiKey cs) w")
  with assms obtain res d where r: "fr = Resolves res" "json_body res = Inr d"
    by (auto simp: parsed_response_def split: fetch_result.splits sum.splits)
  show ?thesis
    by (simp add: iteration_def f r executeTool_not_Inl
        split: option.splits prod.splits sum.splits)
qed

lemma loop_tools_used:
  "outcome (loop E apiKey k cs tu reqs w) = Inr r \<Longrightarrow>
     tools_used r = toolsUsed (loop E apiKey k cs tu reqs w)"
proof (induction k arbitrary: cs tu reqs w)
  case 0
  then show ?case by auto
next
  case (Suc k)
  show ?case
  proof (cases "iteration E apiKey cs tu w")
    case (Throw e tu' w')
    with Suc.prems show ?thesis by simp
  next
    case (Return r' w')
    with Suc.prems iteration_Return[OF Return] show ?thesis by auto
  next
    case (Continue cs' tu' w')
    with Suc show ?thesis by simp
  qed
qed

lemma loop_toolsUsed_length:
  "length (toolsUsed (loop E apiKey k cs tu reqs w)) \<le> length tu + k"
proof (induction k arbitrary: cs tu reqs w)
  case 0
  show ?case by simp
next
  case (Suc k)
  show ?case
  proof (cases "iteration E apiKey cs tu w")
    case (Throw e tu' w')
    with iteration_Throw[OF Throw] show ?thesis by simp
  next
    case (Return r' w')
    then show ?thesis by simp
  next
    case (Continue cs' tu' w')
    from iteration_Continue[OF Continue] have "length tu' = Suc (length tu)" by auto
    with Suc.IH[of cs' tu' "reqs @ [cs]" w'] Continue show ?thesis by simp
  qed
qed

lemma loop_toolsUsed_prefix:
  "prefix tu (toolsUsed (loop E apiKey k cs tu reqs w))"
proof (induction k arbitrary: cs tu reqs w)
  case 0
  show ?case by simp
next
  case (Suc k)
  show ?case
  proof (cases "iteration E apiKey cs tu w")
    case (Continue cs' tu' w')
    from iteration_Continue[OF Continue] have "prefix tu tu'" by auto
    with Suc.IH[of tu' cs' "reqs @ [cs]" w'] Continue show ?thesis
      by (auto intro: prefix_order.trans)
  next
    case (Throw e tu' w')
    with iteration_Throw[OF Throw] show ?thesis by simp
  qed simp_all
qed

lemma loop_all_tool_calls:
  assumes "\<forall>req w0. tool_call_response (fst (fetch E req w0))"
  shows "\<exists>names. length names = k \<and>
           outcome (loop E apiKey k cs tu reqs w) =
             Inr \<lparr>reply = budget_exhausted_msg, tools_used = tu @ names\<rparr> \<and>
           length (requests (loop E apiKey k cs tu reqs w)) = length reqs + k"
proof (induction k arbitrary: cs tu reqs w)
  case 0
  show ?case by simp
next
  case (Suc k)
  obtain fr w1 where f: "fetch E (gemini_request apiKey cs) w = (fr, w1)"
    by (cases "fetch E (gemini_request apiKey cs) w")
  from assms have "tool_call_response (fst (fetch E (gemini_request apiKey cs) w))" by blast
  with f obtain res d ps fc where r: "fr = Resolves res" "ok res" "json_body res = Inr d"
      "first_candidate_parts d = Some ps" "find_functionCall ps = Some fc"
    by (auto simp: tool_call_response_def split: fetch_result.splits sum.splits option.splits)
  obtain s w2 where x: "executeTool (tools E) (fc_name fc) (fc_args fc) apiKey w1 = (Inr s, w2)"
    using executeTool_returns[of "tools E" "fc_name fc" "fc_args fc" apiKey w1] by auto
  have it: "iteration E apiKey cs tu w =
      Continue (cs @ [\<lparr>role = Model, parts = ps\<rparr>, result_turn (fc_name fc) s])
        (tu @ [fc_name fc]) w2"
    using iteration_tool_call[OF f[unfolded r(1)] r(2-5) x] .
  from Suc.IH[of "cs @ [\<lparr>role = Model, parts = ps\<rparr>, result_turn (fc_name fc) s]"
      "tu @ [fc_name fc]" "reqs @ [cs]" w2]
  obtain names where n: "length names = k"
    "outcome (loop E apiKey k (cs @ [\<lparr>role = Model, parts = ps\<rparr>, result_turn (fc_name fc) s])
        (tu @ [fc_name fc]) (reqs @ [cs]) w2) =
      Inr \<lparr>reply = budget_exhausted_msg, tools_used = (tu @ [fc_name fc]) @ names\<rparr>"
    "length (requests (loop E apiKey k (cs @ [\<lparr>role = Model, parts = ps\<rparr>, result_turn (fc_name fc) s])
        (tu @ [fc_name fc]) (reqs @ [cs]) w2)) = length (reqs @ [cs]) + k"
    by blast
  show ?case
    apply (rule exI[of _ "fc_name fc # names"])
    using n it by simp
qed


lemma loop_parsed_returns:
  assumes "\<forall>req w0. parsed_response (fst (fetch E req w0))"
  shows "\<exists>r. outcome (loop E apiKey k cs tu reqs w) = Inr r"
proof (induction k arbitrary: cs tu reqs w)
  case 0
  show ?case by simp
next
  case (Suc k)
  from assms have p: "parsed_response (fst (fetch E (gemini_request apiKey cs) w))" by blast
  show ?case
  proof (cases "iteration E apiKey cs tu w")
    case (Throw e tu' w')
    with iteration_no_Throw[OF p] show ?thesis by blast
  next
    case (Return r' w')
    then show ?thesis by simp
  next
    case (Continue cs' tu' w')
    with Suc.IH[of cs' tu' "reqs @ [cs]" w'] show ?thesis by simp
  qed
qed

lemma loop_requests_prefix:
  "prefix reqs (requests (loop E apiKey k cs tu reqs w))"
proof (induction k arbitrary: cs tu reqs w)
  case 0
  show ?case by simp
next
  case (Suc k)
  show ?case
  proof (cases "iteration E apiKey cs tu w")
    case (Continue cs' tu' w')
    from Suc.IH[of "reqs @ [cs]" cs' tu' w'] have "prefix reqs (requests (loop E apiKey k cs' tu' (reqs @ [cs]) w'))"
      using append_prefixD by blast
    with Continue show ?thesis by simp
  qed simp_all
qed

lemma loop_requests_first:
  "0 < k \<Longrightarrow> prefix (reqs @ [cs]) (requests (loop E apiKey k cs tu reqs w))"
proof (cases k)
  case 0
  moreover assume "0 < k"
  ultimately show ?thesis by simp
next
  case (Suc j)
  show ?thesis
  proof (cases "iteration E apiKey cs tu w")
    case (Continue cs' tu' w')
    with Suc loop_requests_prefix[of "reqs @ [cs]" E apiKey j cs' tu' w'] show ?thesis by simp
  qed (simp_all add: Suc)
qed

lemma loop_contents_prefix:
  "prefix cs (contents (loop E apiKey k cs tu reqs w))"
proof (induction k arbitrary: cs tu reqs w)
  case 0
  show ?case by simp
next
  case (Suc k)
  show ?case
  proof (cases "iteration E apiKey cs tu w")
    case (Continue cs' tu' w')
    from iteration_Continue[OF Continue] have "prefix cs cs'" by auto
    with Suc.IH[of cs' tu' "reqs @ [cs]" w'] Continue show ?thesis
      by (auto intro: prefix_order.trans)
  qed simp_all
qed

lemma is_result_turn_result_turn: "is_result_turn name (result_turn name r)"
  by (simp add: is_result_turn_def result_turn_def)

lemma tool_pairs_snoc:
  assumes "tool_pairs xs = Some ns" and "find_functionCall ps = Some fc"
  shows "tool_pairs (xs @ [\<lparr>role = Model, parts = ps\<rparr>, result_turn (fc_name fc) r]) =
           Some (ns @ [fc_name fc])"
  using assms
proof (induction xs arbitrary: ns rule: tool_pairs.induct)
  case 1
  then show ?case by (simp add: is_result_turn_result_turn)
next
  case (2 t)
  then show ?case by simp
next
  case (3 m u rest)
  then show ?case
    by (auto split: option.splits if_splits)
qed

lemma loop_pairs:
  assumes "tool_pairs tail0 = Some tu"
  shows "\<exists>tail. contents (loop E apiKey k (init @ tail0) tu reqs w) = init @ tail \<and>
           tool_pairs tail = Some (toolsUsed (loop E apiKey k (init @ tail0) tu reqs w))"
  using assms
proof (induction k arbitrary: tail0 tu reqs w)
  case 0
  then show ?case by simp
next
  case (Suc k)
  show ?case
  proof (cases "iteration E apiKey (init @ tail0) tu w")
    case (Throw e tu' w')
    with Suc.prems iteration_Throw[OF Throw] show ?thesis by simp
  next
    case (Return r' w')
    with Suc.prems show ?thesis by simp
  next
    case (Continue cs' tu' w')
    from iteration_Continue[OF Continue] obtain ps fc res where
      c: "find_functionCall ps = Some fc"
         "cs' = (init @ tail0) @ [\<lparr>role = Model, parts = ps\<rparr>, result_turn (fc_name fc) res]"
         "tu' = tu @ [fc_name fc]" by blast
    have "tool_pairs (tail0 @ [\<lparr>role = Model, parts = ps\<rparr>, result_turn (fc_name fc) res]) = Some tu'"
      using tool_pairs_snoc[OF Suc.prems c(1)] c(3) by simp
    from Suc.IH[OF this, of "reqs @ [init @ tail0]" w'] Continue c(2) show ?thesis by simp
  qed
qed

lemma complete_pairs_append:
  "tool_pairs t = Some ns \<Longrightarrow> complete_pairs init (init @ t) = Some ns"
  by (simp add: complete_pairs_def)

lemma loop_requests_pairs:
  assumes "tool_pairs tail0 = Some tu" and "\<forall>c \<in> set reqs. complete_pairs init c \<noteq> None"
  shows "\<forall>c \<in> set (requests (loop E apiKey k (init @ tail0) tu reqs w)). complete_pairs init c \<noteq> None"
  using assms
proof (induction k arbitrary: tail0 tu reqs w)
  case 0
  then show ?case by simp
next
  case (Suc k)
  have here: "complete_pairs init (init @ tail0) \<noteq> None"
    using complete_pairs_append[OF Suc.prems(1)] by simp
  show ?case
  proof (cases "iteration E apiKey (init @ tail0) tu w")
    case (Throw e tu' w')
    with Suc.prems here show ?thesis by simp
  next
    case (Return r' w')
    with Suc.prems here show ?thesis by simp
  next
    case (Continue cs' tu' w')
    from iteration_Continue[OF Continue] obtain ps fc res where
      c: "find_functionCall ps = Some fc"
         "cs' = (init @ tail0) @ [\<lparr>role = Model, parts = ps\<rparr>, result_turn (fc_name fc) res]"
         "tu' = tu @ [fc_name fc]" by blast
    have p: "tool_pairs (tail0 @ [\<lparr>role = Model, parts = ps\<rparr>, result_turn (fc_name fc) res]) = Some tu'"
      using tool_pairs_snoc[OF Suc.prems(1) c(1)] c(3) by simp
    have q: "\<forall>c \<in> set (reqs @ [init @ tail0]). complete_pairs init c \<noteq> None"
      using Suc.prems(2) here by simp
    from Suc.IH[OF p q, of w'] Continue c(2) show ?thesis by simp
  qed
qed

lemma loop_tool_call:
  assumes "fetch E (gemini_request apiKey cs) w = (Resolves res, w1)"
    and "ok res" and "json_body res = Inr d"
    and "first_candidate_parts d = Some ps"
    and "find_functionCall ps = Some fc"
    and "executeTool (tools E) (fc_name fc) (fc_args fc) apiKey w1 = (Inr toolResult, w2)"
  shows "loop E apiKey (Suc k) cs tu reqs w =
           loop E apiKey k
             (cs @ [\<lparr>role = Model, parts = ps\<rparr>, result_turn (fc_name fc) toolResult])
             (tu @ [fc_name fc]) (reqs @ [cs]) w2"
  using iteration_tool_call[OF assms] by simp

lemma dispatch_unknown:
  "name \<notin> set functionDeclarations \<Longrightarrow>
     dispatch T name args apiKey w = (Inr (unknown_tool_prefix @ name), w)"
  by (auto simp: dispatch_def functionDeclarations_def)

lemma tool_pairs_length:
  "tool_pairs xs = Some ns \<Longrightarrow> length xs = 2 * length ns"
proof (induction xs arbitrary: ns rule: tool_pairs.induct)
  case 1
  then show ?case by simp
next
  case (2 t)
  then show ?case by simp
next
  case (3 m u rest)
  then show ?case
    by (auto split: option.splits if_splits)
qed

section \<open>Evaluation of the samples\<close>

lemmas run_defs =
  handleChat_def run_chat_def MAX_TOOL_CALLS_def build_contents_def text_turn_def
  text_part_def history_turn_def iteration_def gemini_request_def
  first_candidate_parts_def result_turn_def service_error_reply_def
  executeTool_def dispatch_def sample_env_def sample_tools_def always_def two_step_def
  answer_def data_with_parts_def call_part_def service_error_def not_json_def numeral_eq_Suc

lemmas scenario_defs =
  scenario_A_def scenario_B_def scenario_C_def scenario_D_def scenario_throwing_tool_def
  scenario_two_calls_def scenario_late_error_def scenario_refused_def scenario_not_json_def
  scenario_empty_def scenario_blank_text_def scenario_late_refused_def
  scenario_late_not_json_def scenario_pretty_def

section \<open>The claims\<close>

text \<open>
  C1. Whatever the completion service answers, the \<open>tools_used\<close> list that handleChat
  returns has at most \<open>MAX_TOOL_CALLS = 5\<close> names. When every completion call answers
  with a tool-call request, handleChat makes exactly five completion calls and returns
  the fixed budget-exhausted reply with the five names it collected.
\<close>

theorem tools_used_within_budget:
  "(\<forall>r w'. handleChat E msg history apiKey w = (Inr r, w') \<longrightarrow>
      length (tools_used r) \<le> MAX_TOOL_CALLS) \<and>
   ((\<forall>req w0. tool_call_response (fst (fetch E req w0))) \<longrightarrow>
      (\<exists>names. fst (handleChat E msg history apiKey w) =
                  Inr \<lparr>reply = budget_exhausted_msg, tools_used = names\<rparr> \<and>
               length names = MAX_TOOL_CALLS \<and>
               length (requests (run_chat E msg history apiKey w)) = MAX_TOOL_CALLS)) \<and>
   MAX_TOOL_CALLS = 5"
proof (intro conjI allI impI)
  fix r w'
  assume "handleChat E msg history apiKey w = (Inr r, w')"
  then have "outcome (loop E apiKey MAX_TOOL_CALLS (build_contents history msg) [] [] w) = Inr r"
    by (simp add: handleChat_def run_chat_def Let_def)
  from loop_tools_used[OF this]
    loop_toolsUsed_length[of E apiKey MAX_TOOL_CALLS "build_contents history msg" "[]" "[]" w]
  show "length (tools_used r) \<le> MAX_TOOL_CALLS" by simp
next
  assume "\<forall>req w0. tool_call_response (fst (fetch E req w0))"
  from loop_all_tool_calls[OF this, of MAX_TOOL_CALLS apiKey "build_contents history msg" "[]" "[]" w]
  show "\<exists>names. fst (handleChat E msg history apiKey w) =
                  Inr \<lparr>reply = budget_exhausted_msg, tools_used = names\<rparr> \<and>
               length names = MAX_TOOL_CALLS \<and>
               length (requests (run_chat E msg history apiKey w)) = MAX_TOOL_CALLS"
    by (auto simp: handleChat_def run_chat_def Let_def)
next
  show "MAX_TOOL_CALLS = 5" by (simp add: MAX_TOOL_CALLS_def)
qed

text \<open>
  The service asks for the weather tool at every call: five calls, five names, the
  budget-exhausted reply.
\<close>

theorem tools_used_within_budget_witness:
  "(\<forall>req w0. tool_call_response (fst (fetch scenario_B req w0))) \<and>
   handleChat scenario_B ''hi'' [] ''key'' 0 =
     (Inr \<lparr>reply = budget_exhausted_msg,
           tools_used = [''weather'', ''weather'', ''weather'', ''weather'', ''weather'']\<rparr>, 5) \<and>
   length (tools_used \<lparr>reply = budget_exhausted_msg,
           tools_used = [''weather'', ''weather'', ''weather'', ''weather'', ''weather'']\<rparr>)
     \<le> MAX_TOOL_CALLS \<and>
   length (requests (run_chat scenario_B ''hi'' [] ''key'' 0)) = MAX_TOOL_CALLS"
proof -
  have h: "\<forall>req w0. tool_call_response (fst (fetch scenario_B req w0))"
    by (simp add: tool_call_response_def scenario_B_def sample_env_def always_def answer_def
        data_with_parts_def first_candidate_parts_def call_part_def)
  have e: "handleChat scenario_B ''hi'' [] ''key'' 0 =
     (Inr \<lparr>reply = budget_exhausted_msg,
           tools_used = [''weather'', ''weather'', ''weather'', ''weather'', ''weather'']\<rparr>, 5)"
    by (simp add: scenario_B_def run_defs)
  from tools_used_within_budget[of scenario_B "''hi''" "[]" "''key''" 0] h e
  show ?thesis by auto
qed

text \<open>
  C2 as stated fails: handleChat has no \<open>try\<close> around the outbound call, so a rejected
  \<open>fetch\<close> and a body that \<open>geminiRes.json()\<close> cannot parse both leave handleChat as
  an exception (the route in index.ts catches it).
\<close>

theorem transport_failure_escapes:
  "handleChat scenario_refused ''hi'' [] ''key'' 0 = (Inl (Error ''connection refused''), 1) \<and>
   handleChat scenario_not_json ''hi'' [] ''key'' 0 =
     (Inl (Error ''Unexpected token in JSON''), 1)"
  by (simp add: scenario_refused_def scenario_not_json_def run_defs)

text \<open>
  C2, amended. When every outbound call resolves with a body that parses as JSON (of
  the wire shape of the completion service), handleChat returns a
  \<open>{reply, tools_used}\<close> value. At whichever pass of the loop it happens, a non-success
  status with such a body ends handleChat with the service-error reply, and a
  rejected call or a body that is not JSON is not caught: it ends handleChat with that
  exception, and no further call is made. handleChat is the loop started with
  \<open>MAX_TOOL_CALLS\<close> passes on the transcript built from its arguments.
\<close>

theorem handleChat_returns_when_calls_parse:
  "((\<forall>req w0. parsed_response (fst (fetch E req w0))) \<longrightarrow>
      (\<exists>r w'. handleChat E msg history apiKey w = (Inr r, w'))) \<and>
   (\<forall>res d w1. fetch E (gemini_request apiKey cs) w = (Resolves res, w1) \<and>
        json_body res = Inr d \<and> \<not> ok res \<longrightarrow>
      loop E apiKey (Suc k) cs tu reqs w =
        \<lparr>outcome = Inr \<lparr>reply = service_error_reply E d, tools_used = tu\<rparr>,
         contents = cs, toolsUsed = tu, requests = reqs @ [cs], world = w1\<rparr>) \<and>
   (\<forall>err w1. fetch E (gemini_request apiKey cs) w = (Rejects err, w1) \<longrightarrow>
      loop E apiKey (Suc k) cs tu reqs w =
        \<lparr>outcome = Inl err, contents = cs, toolsUsed = tu,
         requests = reqs @ [cs], world = w1\<rparr>) \<and>
   (\<forall>res err w1. fetch E (gemini_request apiKey cs) w = (Resolves res, w1) \<and>
        json_body res = Inl err \<longrightarrow>
      loop E apiKey (Suc k) cs tu reqs w =
        \<lparr>outcome = Inl err, contents = cs, toolsUsed = tu,
         requests = reqs @ [cs], world = w1\<rparr>) \<and>
   handleChat E msg history apiKey w =
     (outcome (loop E apiKey MAX_TOOL_CALLS (build_contents history msg) [] [] w),
      world (loop E apiKey MAX_TOOL_CALLS (build_contents history msg) [] [] w))"
proof (intro conjI allI impI)
  assume "\<forall>req w0. parsed_response (fst (fetch E req w0))"
  from loop_parsed_returns[OF this, of apiKey MAX_TOOL_CALLS "build_contents history msg" "[]" "[]" w]
  show "\<exists>r w'. handleChat E msg history apiKey w = (Inr r, w')"
    by (auto simp: handleChat_def run_chat_def Let_def)
next
  fix res d w1
  assume "fetch E (gemini_request apiKey cs) w = (Resolves res, w1) \<and>
        json_body res = Inr d \<and> \<not> ok res"
  then show "loop E apiKey (Suc k) cs tu reqs w =
        \<lparr>outcome = Inr \<lparr>reply = service_error_reply E d, tools_used = tu\<rparr>,
         contents = cs, toolsUsed = tu, requests = reqs @ [cs], world = w1\<rparr>"
    by (simp add: iteration_def)
next
  fix err w1
  assume "fetch E (gemini_request apiKey cs) w = (Rejects err, w1)"
  then show "loop E apiKey (Suc k) cs tu reqs w =
        \<lparr>outcome = Inl err, contents = cs, toolsUsed = tu,
         requests = reqs @ [cs], world = w1\<rparr>"
    by (simp add: iteration_def)
next
  fix res err w1
  assume "fetch E (gemini_request apiKey cs) w = (Resolves res, w1) \<and>
        json_body res = Inl err"
  then show "loop E apiKey (Suc k) cs tu reqs w =
        \<lparr>outcome = Inl err, contents = cs, toolsUsed = tu,
         requests = reqs @ [cs], world = w1\<rparr>"
    by (simp add: iteration_def)
next
  show "handleChat E msg history apiKey w =
     (outcome (loop E apiKey MAX_TOOL_CALLS (build_contents history msg) [] [] w),
      world (loop E apiKey MAX_TOOL_CALLS (build_contents history msg) [] [] w))"
    by (simp add: handleChat_def run_chat_def Let_def)
qed

text \<open>
  The three ways at the second call, after one tool call: a non-success status with a
  JSON body, a refused connection, a body that is not JSON.
\<close>

theorem handleChat_returns_when_calls_parse_witness:
  "(\<forall>req w0. parsed_response (fst (fetch scenario_late_error req w0))) \<and>
   fetch scenario_late_error (gemini_request ''key''
      (build_contents [] ''hi'' @
         [\<lparr>role = Model, parts = [call_part ''weather'']\<rparr>,
          result_turn ''weather'' ''5 C, clear''])) 1 =
     (service_error ''quota exceeded'', 2) \<and>
   handleChat scenario_late_error ''hi'' [] ''key'' 0 =
     (Inr \<lparr>reply = api_error_prefix @ ''quota exceeded'', tools_used = [''weather'']\<rparr>, 2) \<and>
   fetch scenario_late_refused (gemini_request ''key''
      (build_contents [] ''hi'' @
         [\<lparr>role = Model, parts = [call_part ''weather'']\<rparr>,
          result_turn ''weather'' ''5 C, clear''])) 1 =
     (Rejects (Error ''connection refused''), 2) \<and>
   handleChat scenario_late_refused ''hi'' [] ''key'' 0 =
     (Inl (Error ''connection refused''), 2) \<and>
   fetch scenario_late_not_json (gemini_request ''key''
      (build_contents [] ''hi'' @
         [\<lparr>role = Model, parts = [call_part ''weather'']\<rparr>,
          result_turn ''weather'' ''5 C, clear''])) 1 =
     (not_json, 2) \<and>
   handleChat scenario_late_not_json ''hi'' [] ''key'' 0 =
     (Inl (Error ''Unexpected token in JSON''), 2)"
proof -
  let ?cs = "build_contents [] ''hi''"
  let ?cs1 = "?cs @ [\<lparr>role = Model, parts = [call_part ''weather'']\<rparr>,
                     result_turn ''weather'' ''5 C, clear'']"
  let ?d = "\<lparr>error_message = Some ''quota exceeded'', candidates = None\<rparr>"
  let ?res = "\<lparr>ok = False, body_text = sample_body_text ?d, json_body = Inr ?d\<rparr>"
  let ?bad = "\<lparr>ok = False, body_text = ''502 Bad Gateway'',
               json_body = Inl (Error ''Unexpected token in JSON'')\<rparr>"
  note main = handleChat_returns_when_calls_parse
  \<comment> \<open>every call parses: a value is returned\<close>
  have h: "\<forall>req w0. parsed_response (fst (fetch scenario_late_error req w0))"
    by (simp add: parsed_response_def scenario_late_error_def sample_env_def two_step_def
        answer_def service_error_def)
  from main[where E = scenario_late_error and msg = "''hi''" and history = "[]"
        and apiKey = "''key''" and w = 0, THEN conjunct1, THEN mp, OF h]
  obtain r w' where ret: "handleChat scenario_late_error ''hi'' [] ''key'' 0 = (Inr r, w')"
    by blast
  \<comment> \<open>a non-success status at the second call\<close>
  have f1: "fetch scenario_late_error (gemini_request ''key'' ?cs1) 1 =
      (service_error ''quota exceeded'', 2)"
    by (simp add: scenario_late_error_def sample_env_def two_step_def)
  then have "fetch scenario_late_error (gemini_request ''key'' ?cs1) 1 = (Resolves ?res, 2) \<and>
      json_body ?res = Inr ?d \<and> \<not> ok ?res"
    by (simp add: service_error_def)
  from main[where E = scenario_late_error and apiKey = "''key''" and cs = ?cs1 and w = 1
        and k = 3 and tu = "[''weather'']" and reqs = "[?cs]",
      THEN conjunct2, THEN conjunct1, rule_format, OF this]
  have l1: "loop scenario_late_error ''key'' (Suc 3) ?cs1 [''weather''] [?cs] 1 =
      \<lparr>outcome = Inr \<lparr>reply = service_error_reply scenario_late_error ?d,
                       tools_used = [''weather'']\<rparr>,
       contents = ?cs1, toolsUsed = [''weather''], requests = [?cs] @ [?cs1], world = 2\<rparr>" .
  have "run_chat scenario_late_error ''hi'' [] ''key'' 0 =
      loop scenario_late_error ''key'' (Suc 3) ?cs1 [''weather''] [?cs] 1"
    by (simp add: scenario_late_error_def run_defs)
  with l1 have c1: "handleChat scenario_late_error ''hi'' [] ''key'' 0 =
     (Inr \<lparr>reply = api_error_prefix @ ''quota exceeded'', tools_used = [''weather'']\<rparr>, 2)"
    by (simp add: handleChat_def service_error_reply_def)
  \<comment> \<open>a refused connection at the second call\<close>
  have f2: "fetch scenario_late_refused (gemini_request ''key'' ?cs1) 1 =
      (Rejects (Error ''connection refused''), 2)"
    by (simp add: scenario_late_refused_def sample_env_def two_step_def)
  from main[where E = scenario_late_refused and apiKey = "''key''" and cs = ?cs1 and w = 1
        and k = 3 and tu = "[''weather'']" and reqs = "[?cs]",
      THEN conjunct2, THEN conjunct2, THEN conjunct1, rule_format, OF this]
  have l2: "loop scenario_late_refused ''key'' (Suc 3) ?cs1 [''weather''] [?cs] 1 =
      \<lparr>outcome = Inl (Error ''connection refused''), contents = ?cs1,
       toolsUsed = [''weather''], requests = [?cs] @ [?cs1], world = 2\<rparr>" .
  have "run_chat scenario_late_refused ''hi'' [] ''key'' 0 =
      loop scenario_late_refused ''key'' (Suc 3) ?cs1 [''weather''] [?cs] 1"
    by (simp add: scenario_late_refused_def run_defs)
  with l2 have c2: "handleChat scenario_late_refused ''hi'' [] ''key'' 0 =
     (Inl (Error ''connection refused''), 2)"
    by (simp add: handleChat_def)
  \<comment> \<open>a body that is not JSON at the second call\<close>
  have f3: "fetch scenario_late_not_json (gemini_request ''key'' ?cs1) 1 = (not_json, 2)"
    by (simp add: scenario_late_not_json_def sample_env_def two_step_def)
  then have "fetch scenario_late_not_json (gemini_request ''key'' ?cs1) 1 =
      (Resolves ?bad, 2) \<and> json_body ?bad = Inl (Error ''Unexpected token in JSON'')"
    by (simp add: not_json_def)
  from main[where E = scenario_late_not_json and apiKey = "''key''" and cs = ?cs1 and w = 1
        and k = 3 and tu = "[''weather'']" and reqs = "[?cs]",
      THEN conjunct2, THEN conjunct2, THEN conjunct2, THEN conjunct1, rule_format, OF this]
  have l3: "loop scenario_late_not_json ''key'' (Suc 3) ?cs1 [''weather''] [?cs] 1 =
      \<lparr>outcome = Inl (Error ''Unexpected token in JSON''), contents = ?cs1,
       toolsUsed = [''weather''], requests = [?cs] @ [?cs1], world = 2\<rparr>" .
  have "run_chat scenario_late_not_json ''hi'' [] ''key'' 0 =
      loop scenario_late_not_json ''key'' (Suc 3) ?cs1 [''weather''] [?cs] 1"
    by (simp add: scenario_late_not_json_def run_defs)
  with l3 have c3: "handleChat scenario_late_not_json ''hi'' [] ''key'' 0 =
     (Inl (Error ''Unexpected token in JSON''), 2)"
    by (simp add: handleChat_def)
  from h f1 c1 f2 c2 f3 c3 show ?thesis by blast
qed

text \<open>
  C3. executeTool returns a string for every name and every argument value: a name
  with no executor gives the unknown-tool string and touches nothing, and an executor
  that throws gives the tool-error string with the name and the error's message. In
  the loop, when a response asks for a tool, whatever that tool does, its name is
  appended to \<open>toolsUsed\<close> and stays there, the pass ends with \<open>continue\<close>, and when a
  pass is left the next completion call is made with the tool's result in the
  transcript.
\<close>

theorem executeTool_never_raises:
  "(\<exists>s w'. executeTool (tools E) name args apiKey w = (Inr s, w')) \<and>
   (name \<notin> set functionDeclarations \<longrightarrow>
      executeTool (tools E) name args apiKey w = (Inr (unknown_tool_prefix @ name), w)) \<and>
   (\<forall>err w'. dispatch (tools E) name args apiKey w = (Inl err, w') \<longrightarrow>
      executeTool (tools E) name args apiKey w =
        (Inr (tool_error_prefix @ name @ ''): '' @ message err), w')) \<and>
   (\<forall>res w1 d ps fc.
      fetch E (gemini_request apiKey cs) w = (Resolves res, w1) \<and> ok res \<and>
      json_body res = Inr d \<and> first_candidate_parts d = Some ps \<and>
      find_functionCall ps = Some fc \<longrightarrow>
      (\<exists>toolResult w2.
         executeTool (tools E) (fc_name fc) (fc_args fc) apiKey w1 = (Inr toolResult, w2) \<and>
         loop E apiKey (Suc k) cs tu reqs w =
           loop E apiKey k
             (cs @ [\<lparr>role = Model, parts = ps\<rparr>, result_turn (fc_name fc) toolResult])
             (tu @ [fc_name fc]) (reqs @ [cs]) w2 \<and>
         prefix (tu @ [fc_name fc]) (toolsUsed (loop E apiKey (Suc k) cs tu reqs w)) \<and>
         (0 < k \<longrightarrow>
            prefix (reqs @ [cs, cs @ [\<lparr>role = Model, parts = ps\<rparr>,
                                      result_turn (fc_name fc) toolResult]])
              (requests (loop E apiKey (Suc k) cs tu reqs w)))))"
proof (intro conjI allI impI)
  show "\<exists>s w'. executeTool (tools E) name args apiKey w = (Inr s, w')"
    by (rule executeTool_returns)
next
  assume "name \<notin> set functionDeclarations"
  then show "executeTool (tools E) name args apiKey w = (Inr (unknown_tool_prefix @ name), w)"
    by (simp add: executeTool_def dispatch_unknown)
next
  fix err w'
  assume "dispatch (tools E) name args apiKey w = (Inl err, w')"
  then show "executeTool (tools E) name args apiKey w =
        (Inr (tool_error_prefix @ name @ ''): '' @ message err), w')"
    by (simp add: executeTool_def)
next
  fix res w1 d ps fc
  assume a: "fetch E (gemini_request apiKey cs) w = (Resolves res, w1) \<and> ok res \<and>
      json_body res = Inr d \<and> first_candidate_parts d = Some ps \<and>
      find_functionCall ps = Some fc"
  obtain toolResult w2 where
    x: "executeTool (tools E) (fc_name fc) (fc_args fc) apiKey w1 = (Inr toolResult, w2)"
    using executeTool_returns[of "tools E" "fc_name fc" "fc_args fc" apiKey w1] by auto
  let ?cs = "cs @ [\<lparr>role = Model, parts = ps\<rparr>, result_turn (fc_name fc) toolResult]"
  have step: "loop E apiKey (Suc k) cs tu reqs w =
      loop E apiKey k ?cs (tu @ [fc_name fc]) (reqs @ [cs]) w2"
    using a x by (intro loop_tool_call) auto
  have p: "prefix (tu @ [fc_name fc]) (toolsUsed (loop E apiKey (Suc k) cs tu reqs w))"
    unfolding step by (rule loop_toolsUsed_prefix)
  have q: "0 < k \<longrightarrow> prefix (reqs @ [cs, ?cs]) (requests (loop E apiKey (Suc k) cs tu reqs w))"
    unfolding step using loop_requests_first[of k "reqs @ [cs]" ?cs E apiKey "tu @ [fc_name fc]" w2]
    by simp
  from x step p q
  show "\<exists>toolResult w2.
         executeTool (tools E) (fc_name fc) (fc_args fc) apiKey w1 = (Inr toolResult, w2) \<and>
         loop E apiKey (Suc k) cs tu reqs w =
           loop E apiKey k
             (cs @ [\<lparr>role = Model, parts = ps\<rparr>, result_turn (fc_name fc) toolResult])
             (tu @ [fc_name fc]) (reqs @ [cs]) w2 \<and>
         prefix (tu @ [fc_name fc]) (toolsUsed (loop E apiKey (Suc k) cs tu reqs w)) \<and>
         (0 < k \<longrightarrow>
            prefix (reqs @ [cs, cs @ [\<lparr>role = Model, parts = ps\<rparr>,
                                      result_turn (fc_name fc) toolResult]])
              (requests (loop E apiKey (Suc k) cs tu reqs w)))"
    by blast
qed

theorem executeTool_never_raises_witness:
  "''unknown_tool'' \<notin> set functionDeclarations \<and>
   executeTool (tools scenario_D) ''unknown_tool'' None ''key'' 1 =
     (Inr (unknown_tool_prefix @ ''unknown_tool''), 1) \<and>
   dispatch (tools scenario_D) ''fetch_url'' None ''key'' 1 = (Inl (Error ''fetch failed''), 1) \<and>
   executeTool (tools scenario_D) ''fetch_url'' None ''key'' 1 =
     (Inr (tool_error_prefix @ ''fetch_url'' @ ''): '' @ ''fetch failed''), 1) \<and>
   fetch scenario_D (gemini_request ''key'' (build_contents [] ''hi'')) 0 =
     (answer True [call_part ''unknown_tool''], 1) \<and>
   prefix [''unknown_tool'']
     (toolsUsed (loop scenario_D ''key'' (Suc 4) (build_contents [] ''hi'') [] [] 0)) \<and>
   prefix [build_contents [] ''hi'',
           build_contents [] ''hi'' @
             [\<lparr>role = Model, parts = [call_part ''unknown_tool'']\<rparr>,
              result_turn ''unknown_tool'' (unknown_tool_prefix @ ''unknown_tool'')]]
     (requests (loop scenario_D ''key'' (Suc 4) (build_contents [] ''hi'') [] [] 0)) \<and>
   handleChat scenario_D ''hi'' [] ''key'' 0 =
     (Inr \<lparr>reply = ''I cannot do that'', tools_used = [''unknown_tool'']\<rparr>, 2)"
proof -
  let ?fc = "\<lparr>fc_name = ''unknown_tool'', fc_args = None, fc_other = []\<rparr>"
  let ?ps = "[call_part ''unknown_tool'']"
  let ?d = "data_with_parts ?ps"
  let ?res = "\<lparr>ok = True, body_text = sample_body_text ?d, json_body = Inr ?d\<rparr>"
  let ?cs = "build_contents [] ''hi''"
  note main = executeTool_never_raises
  have h1: "''unknown_tool'' \<notin> set functionDeclarations"
    by (simp add: functionDeclarations_def)
  with main[of scenario_D "''unknown_tool''" None "''key''" 1]
  have c1: "executeTool (tools scenario_D) ''unknown_tool'' None ''key'' 1 =
     (Inr (unknown_tool_prefix @ ''unknown_tool''), 1)" by blast
  have h2: "dispatch (tools scenario_D) ''fetch_url'' None ''key'' 1 =
      (Inl (Error ''fetch failed''), 1)"
    by (simp add: dispatch_def scenario_D_def sample_env_def sample_tools_def)
  with main[of scenario_D "''fetch_url''" None "''key''" 1]
  have "executeTool (tools scenario_D) ''fetch_url'' None ''key'' 1 =
     (Inr (tool_error_prefix @ ''fetch_url'' @ ''): '' @ message (Error ''fetch failed'')), 1)"
    by blast
  then have c2: "executeTool (tools scenario_D) ''fetch_url'' None ''key'' 1 =
     (Inr (tool_error_prefix @ ''fetch_url'' @ ''): '' @ ''fetch failed''), 1)" by simp
  have h3: "fetch scenario_D (gemini_request ''key'' ?cs) 0 =
      (answer True [call_part ''unknown_tool''], 1)"
    by (simp add: scenario_D_def sample_env_def two_step_def)
  then have h3': "fetch scenario_D (gemini_request ''key'' ?cs) 0 = (Resolves ?res, 1) \<and>
      ok ?res \<and> json_body ?res = Inr ?d \<and> first_candidate_parts ?d = Some ?ps \<and>
      find_functionCall ?ps = Some ?fc"
    by (simp add: answer_def data_with_parts_def first_candidate_parts_def call_part_def)
  note step = main[of scenario_D "''unknown_tool''" None "''key''" 0 ?cs 4 "[]" "[]",
      THEN conjunct2, THEN conjunct2, THEN conjunct2, rule_format, OF h3']
  then obtain toolResult w2 where
    x: "executeTool (tools scenario_D) (fc_name ?fc) (fc_args ?fc) ''key'' 1 = (Inr toolResult, w2)"
    and p: "prefix ([] @ [fc_name ?fc])
        (toolsUsed (loop scenario_D ''key'' (Suc 4) ?cs [] [] 0))"
    and q: "(0::nat) < 4 \<longrightarrow> prefix ([] @ [?cs, ?cs @ [\<lparr>role = Model, parts = ?ps\<rparr>,
                                      result_turn (fc_name ?fc) toolResult]])
              (requests (loop scenario_D ''key'' (Suc 4) ?cs [] [] 0))"
    by (elim exE conjE)
  from x c1 have tr: "toolResult = unknown_tool_prefix @ ''unknown_tool''" by simp
  have c3: "prefix [''unknown_tool'']
     (toolsUsed (loop scenario_D ''key'' (Suc 4) ?cs [] [] 0))" using p by simp
  have c4: "prefix [?cs, ?cs @ [\<lparr>role = Model, parts = ?ps\<rparr>,
              result_turn ''unknown_tool'' (unknown_tool_prefix @ ''unknown_tool'')]]
     (requests (loop scenario_D ''key'' (Suc 4) ?cs [] [] 0))" using q tr by simp
  have c5: "handleChat scenario_D ''hi'' [] ''key'' 0 =
     (Inr \<lparr>reply = ''I cannot do that'', tools_used = [''unknown_tool'']\<rparr>, 2)"
    by (simp add: scenario_D_def run_defs)
  from h1 c1 h2 c2 h3 c3 c4 c5 show ?thesis by blast
qed

text \<open>
  C4 as stated fails on the bytes. \<open>geminiRes.json()\<close> parses the body received and
  \<open>JSON.stringify\<close> writes the transcript anew for the next call, so what is sent back
  is the text of the parsed value, not the text received. Here the service sends its
  body with white space after the colons and commas; the segment list as it was
  received does not occur in the body of the call that follows.
\<close>

theorem resent_bytes_differ:
  "fetch scenario_pretty
     (gemini_request ''key'' (build_contents sample_history ''weather in Seoul?'')) 0 =
     (Resolves pretty_response, 1) \<and>
   sublist pretty_parts_text (body_text pretty_response) \<and>
   json_body pretty_response = Inr (data_with_parts pretty_parts) \<and>
   first_candidate_parts (data_with_parts pretty_parts) = Some pretty_parts \<and>
   requests (run_chat scenario_pretty ''weather in Seoul?'' sample_history ''key'' 0) ! 1 =
     build_contents sample_history ''weather in Seoul?'' @
       [\<lparr>role = Model, parts = pretty_parts\<rparr>, result_turn ''weather'' ''5 C, clear''] \<and>
   request_body scenario_pretty
     (gemini_request ''key''
        (requests (run_chat scenario_pretty ''weather in Seoul?'' sample_history ''key'' 0) ! 1)) =
     pretty_sent_text \<and>
   \<not> sublist pretty_parts_text pretty_sent_text"
proof -
  have a: "fetch scenario_pretty
     (gemini_request ''key'' (build_contents sample_history ''weather in Seoul?'')) 0 =
     (Resolves pretty_response, 1)"
    by (simp add: scenario_pretty_def sample_env_def two_step_def)
  have b: "sublist pretty_parts_text (body_text pretty_response)"
    by (simp only: pretty_response_def pretty_body_text_def response.select_convs
        sublist_appendI)
  have c: "json_body pretty_response = Inr (data_with_parts pretty_parts)"
    by (simp add: pretty_response_def)
  have d: "first_candidate_parts (data_with_parts pretty_parts) = Some pretty_parts"
    by (simp add: data_with_parts_def first_candidate_parts_def)
  have e: "requests (run_chat scenario_pretty ''weather in Seoul?'' sample_history ''key'' 0) ! 1 =
     build_contents sample_history ''weather in Seoul?'' @
       [\<lparr>role = Model, parts = pretty_parts\<rparr>, result_turn ''weather'' ''5 C, clear'']"
    by (simp add: scenario_pretty_def pretty_response_def pretty_parts_def sample_history_def
        run_defs)
  have f: "request_body scenario_pretty
     (gemini_request ''key''
        (build_contents sample_history ''weather in Seoul?'' @
           [\<lparr>role = Model, parts = pretty_parts\<rparr>, result_turn ''weather'' ''5 C, clear''])) =
     pretty_sent_text"
    by (simp add: request_body_def gemini_request_def scenario_pretty_def sample_env_def
        sample_stringify_contents_def turn_json_def part_json_def quote_def escape_char_def
        build_contents_def history_turn_def text_turn_def text_part_def result_turn_def
        sample_history_def pretty_parts_def pretty_sent_text_def)
  have g: "\<not> sublist pretty_parts_text pretty_sent_text"
    by (simp add: pretty_parts_text_def pretty_sent_text_def sublist_code(3))
  from a b c d e f g show ?thesis by simp
qed

text \<open>
  C4, amended. When a response asks for a tool, the model turn appended to the
  transcript holds the segment list of the parsed body itself: every segment with all
  its fields, the opaque ones (\<open>thoughtSignature\<close>, the fields of \<open>functionCall\<close> the code
  does not read) included, not a list rebuilt from the fields that were read. That
  value is the turn the next completion call carries, and the bytes sent are
  \<open>JSON.stringify\<close> of it, which need not be the bytes received.
\<close>

theorem raw_parts_appended_verbatim:
  assumes "fetch E (gemini_request apiKey cs) w = (Resolves res, w1)"
    and "ok res" and "json_body res = Inr d"
    and "first_candidate_parts d = Some ps"
    and "find_functionCall ps = Some fc"
  shows "prefix (cs @ [\<lparr>role = Model, parts = ps\<rparr>])
           (contents (loop E apiKey (Suc k) cs tu reqs w)) \<and>
         parts (contents (loop E apiKey (Suc k) cs tu reqs w) ! length cs) = ps \<and>
         (0 < k \<longrightarrow>
            (\<exists>toolResult.
               requests (loop E apiKey (Suc k) cs tu reqs w) ! Suc (length reqs) =
                 cs @ [\<lparr>role = Model, parts = ps\<rparr>, result_turn (fc_name fc) toolResult] \<and>
               request_body E (gemini_request apiKey
                   (requests (loop E apiKey (Suc k) cs tu reqs w) ! Suc (length reqs))) =
                 JSON_stringify_contents E
                   (cs @ [\<lparr>role = Model, parts = ps\<rparr>,
                          result_turn (fc_name fc) toolResult])))"
proof -
  obtain toolResult w2 where
    x: "executeTool (tools E) (fc_name fc) (fc_args fc) apiKey w1 = (Inr toolResult, w2)"
    using executeTool_returns[of "tools E" "fc_name fc" "fc_args fc" apiKey w1] by auto
  let ?cs = "cs @ [\<lparr>role = Model, parts = ps\<rparr>, result_turn (fc_name fc) toolResult]"
  let ?s = "loop E apiKey (Suc k) cs tu reqs w"
  have step: "?s = loop E apiKey k ?cs (tu @ [fc_name fc]) (reqs @ [cs]) w2"
    using loop_tool_call[OF assms x] .
  have "prefix ?cs (contents ?s)"
    unfolding step by (rule loop_contents_prefix)
  then obtain rest where r: "contents ?s = ?cs @ rest" by (auto simp: prefix_def)
  have a: "prefix (cs @ [\<lparr>role = Model, parts = ps\<rparr>]) (contents ?s)"
    unfolding r by (simp add: prefix_def)
  have b: "parts (contents ?s ! length cs) = ps"
    unfolding r by (simp add: nth_append)
  have c: "0 < k \<longrightarrow> requests ?s ! Suc (length reqs) = ?cs \<and>
      request_body E (gemini_request apiKey (requests ?s ! Suc (length reqs))) =
        JSON_stringify_contents E ?cs"
  proof
    assume "0 < k"
    from loop_requests_first[OF this, of "reqs @ [cs]" ?cs E apiKey "tu @ [fc_name fc]" w2]
    obtain more where "requests ?s = (reqs @ [cs, ?cs]) @ more"
      unfolding step by (auto simp: prefix_def)
    then have "requests ?s ! Suc (length reqs) = ?cs"
      by (simp add: nth_append)
    then show "requests ?s ! Suc (length reqs) = ?cs \<and>
      request_body E (gemini_request apiKey (requests ?s ! Suc (length reqs))) =
        JSON_stringify_contents E ?cs"
      by (simp add: request_body_def gemini_request_def)
  qed
  from a b c show ?thesis by blast
qed

text \<open>
  The turn appended holds the \<open>id\<close> of the function call and the \<open>thoughtSignature\<close>; a
  list rebuilt from the name and the arguments would have neither.
\<close>

theorem raw_parts_appended_verbatim_witness:
  "fetch scenario_pretty
     (gemini_request ''key'' (build_contents sample_history ''weather in Seoul?'')) 0 =
     (Resolves pretty_response, 1) \<and>
   ok pretty_response \<and>
   json_body pretty_response = Inr (data_with_parts pretty_parts) \<and>
   first_candidate_parts (data_with_parts pretty_parts) = Some pretty_parts \<and>
   find_functionCall pretty_parts =
     Some \<lparr>fc_name = ''weather'', fc_args = Some (JObj [(''city'', JStr ''Seoul'')]),
           fc_other = [(''id'', JStr ''call-1'')]\<rparr> \<and>
   parts (contents (loop scenario_pretty ''key'' (Suc 4)
            (build_contents sample_history ''weather in Seoul?'') [] [] 0) ! 3) =
     [\<lparr>ptext = None,
       functionCall = Some \<lparr>fc_name = ''weather'',
                             fc_args = Some (JObj [(''city'', JStr ''Seoul'')]),
                             fc_other = [(''id'', JStr ''call-1'')]\<rparr>,
       functionResponse = None,
       other_fields = [(''thoughtSignature'', JStr ''c2lnbmF0dXJl'')]\<rparr>] \<and>
   parts (contents (loop scenario_pretty ''key'' (Suc 4)
            (build_contents sample_history ''weather in Seoul?'') [] [] 0) ! 3) \<noteq>
     reconstructed \<lparr>fc_name = ''weather'', fc_args = Some (JObj [(''city'', JStr ''Seoul'')]),
                    fc_other = [(''id'', JStr ''call-1'')]\<rparr> \<and>
   (\<exists>toolResult.
      requests (loop scenario_pretty ''key'' (Suc 4)
            (build_contents sample_history ''weather in Seoul?'') [] [] 0) ! 1 =
        build_contents sample_history ''weather in Seoul?'' @
          [\<lparr>role = Model, parts = pretty_parts\<rparr>, result_turn ''weather'' toolResult])"
proof -
  let ?fc = "\<lparr>fc_name = ''weather'', fc_args = Some (JObj [(''city'', JStr ''Seoul'')]),
             fc_other = [(''id'', JStr ''call-1'')]\<rparr>"
  let ?cs = "build_contents sample_history ''weather in Seoul?''"
  let ?s = "loop scenario_pretty ''key'' (Suc 4) ?cs [] [] 0"
  have h1: "fetch scenario_pretty (gemini_request ''key'' ?cs) 0 = (Resolves pretty_response, 1)"
    by (simp add: scenario_pretty_def sample_env_def two_step_def)
  have h2: "ok pretty_response" "json_body pretty_response = Inr (data_with_parts pretty_parts)"
    "first_candidate_parts (data_with_parts pretty_parts) = Some pretty_parts"
    "find_functionCall pretty_parts = Some ?fc"
    by (simp_all add: pretty_response_def data_with_parts_def first_candidate_parts_def
        pretty_parts_def)
  have l: "length ?cs = 3" by (simp add: build_contents_def sample_history_def)
  from raw_parts_appended_verbatim[OF h1 h2, of 4 "[]" "[]"] l
  have m: "parts (contents ?s ! 3) = pretty_parts \<and>
    (\<exists>toolResult. requests ?s ! 1 =
        ?cs @ [\<lparr>role = Model, parts = pretty_parts\<rparr>, result_turn ''weather'' toolResult])"
    by auto
  then have n: "parts (contents ?s ! 3) \<noteq> reconstructed ?fc"
    by (simp add: pretty_parts_def reconstructed_def)
  from h1 h2 m n show ?thesis by (simp add: pretty_parts_def)
qed

text \<open>
  C5. In every run of handleChat the transcript is, at the end and at each completion
  call, the initial transcript followed by complete pairs: a model turn that requests
  a tool, then one user turn with the result of the tool of that name. The names of
  the pairs of the final transcript are \<open>toolsUsed\<close> in order, so a run that returns a
  reply has appended as many pairs as its \<open>tools_used\<close> has names.
\<close>

theorem tool_calls_paired_with_results:
  "complete_pairs (build_contents history msg) (contents (run_chat E msg history apiKey w)) =
     Some (toolsUsed (run_chat E msg history apiKey w)) \<and>
   (\<forall>c \<in> set (requests (run_chat E msg history apiKey w)).
      complete_pairs (build_contents history msg) c \<noteq> None) \<and>
   (\<forall>r. outcome (run_chat E msg history apiKey w) = Inr r \<longrightarrow>
      complete_pairs (build_contents history msg) (contents (run_chat E msg history apiKey w)) =
        Some (tools_used r) \<and>
      length (contents (run_chat E msg history apiKey w)) =
        length (build_contents history msg) + 2 * length (tools_used r))"
proof -
  let ?init = "build_contents history msg"
  let ?s = "run_chat E msg history apiKey w"
  have s: "?s = loop E apiKey MAX_TOOL_CALLS (?init @ []) [] [] w"
    by (simp add: run_chat_def)
  have t0: "tool_pairs [] = Some []" by simp
  from loop_pairs[OF t0, of E apiKey MAX_TOOL_CALLS ?init "[]" w]
  obtain tail where t: "contents ?s = ?init @ tail" "tool_pairs tail = Some (toolsUsed ?s)"
    unfolding s by blast
  have a: "complete_pairs ?init (contents ?s) = Some (toolsUsed ?s)"
    unfolding t(1) using t(2) by (rule complete_pairs_append)
  have b: "\<forall>c \<in> set (requests ?s). complete_pairs ?init c \<noteq> None"
    unfolding s by (rule loop_requests_pairs[OF t0]) simp
  have len: "length tail = 2 * length (toolsUsed ?s)"
    using t(2) by (rule tool_pairs_length)
  have c: "\<forall>r. outcome ?s = Inr r \<longrightarrow>
      complete_pairs ?init (contents ?s) = Some (tools_used r) \<and>
      length (contents ?s) = length ?init + 2 * length (tools_used r)"
  proof (intro allI impI)
    fix r
    assume "outcome ?s = Inr r"
    then have "tools_used r = toolsUsed ?s"
      unfolding s by (rule loop_tools_used)
    with a len t(1) show "complete_pairs ?init (contents ?s) = Some (tools_used r) \<and>
      length (contents ?s) = length ?init + 2 * length (tools_used r)" by simp
  qed
  from a b c show ?thesis by blast
qed

theorem tool_calls_paired_with_results_witness:
  "run_chat scenario_A ''hi'' [] ''key'' 0 =
     \<lparr>outcome = Inr \<lparr>reply = ''It is 5 C and clear in Seoul.'', tools_used = [''weather'']\<rparr>,
      contents = build_contents [] ''hi'' @
        [\<lparr>role = Model, parts = [call_part ''weather'']\<rparr>, result_turn ''weather'' ''5 C, clear''],
      toolsUsed = [''weather''],
      requests = [build_contents [] ''hi'',
                  build_contents [] ''hi'' @
                    [\<lparr>role = Model, parts = [call_part ''weather'']\<rparr>,
                     result_turn ''weather'' ''5 C, clear'']],
      world = 2\<rparr> \<and>
   complete_pairs (build_contents [] ''hi'')
     (build_contents [] ''hi'' @
        [\<lparr>role = Model, parts = [call_part ''weather'']\<rparr>, result_turn ''weather'' ''5 C, clear''])
     = Some [''weather''] \<and>
   complete_pairs (build_contents [] ''hi'') (build_contents [] ''hi'') \<noteq> None"
proof -
  have e: "run_chat scenario_A ''hi'' [] ''key'' 0 =
     \<lparr>outcome = Inr \<lparr>reply = ''It is 5 C and clear in Seoul.'', tools_used = [''weather'']\<rparr>,
      contents = build_contents [] ''hi'' @
        [\<lparr>role = Model, parts = [call_part ''weather'']\<rparr>, result_turn ''weather'' ''5 C, clear''],
      toolsUsed = [''weather''],
      requests = [build_contents [] ''hi'',
                  build_contents [] ''hi'' @
                    [\<lparr>role = Model, parts = [call_part ''weather'']\<rparr>,
                     result_turn ''weather'' ''5 C, clear'']],
      world = 2\<rparr>"
    by (simp add: scenario_A_def run_defs)
  from tool_calls_paired_with_results[of "[]" "''hi''" scenario_A "''key''" 0]
  show ?thesis unfolding e by simp
qed

text \<open>
  C6. With an empty history the transcript is one user turn whose text is the fixed
  system prompt, the fixed label that introduces the question, and then the user's
  message as it is. With a non-empty history the new user turn carries the message
  unmodified, without the system prompt, after the prior turns; each prior turn keeps
  its text, and its role is mapped assistant to model and user to user.
\<close>

theorem build_contents_rule:
  "build_contents [] msg =
     [\<lparr>role = User, parts = [text_part (systemPrompt @ question_label @ msg)]\<rparr>] \<and>
   (history \<noteq> [] \<longrightarrow>
      build_contents history msg =
        map history_turn history @ [\<lparr>role = User, parts = [text_part msg]\<rparr>]) \<and>
   role (history_turn m) = (case msg_role m of Assistant \<Rightarrow> Model | UserMsg \<Rightarrow> User) \<and>
   parts (history_turn m) = [text_part (msg_text m)] \<and>
   ptext (text_part s) = Some s"
  by (cases "msg_role m")
    (simp_all add: build_contents_def text_turn_def history_turn_def text_part_def)

theorem build_contents_rule_witness:
  "[\<lparr>msg_role = UserMsg, msg_text = ''hi''\<rparr>, \<lparr>msg_role = Assistant, msg_text = ''hello''\<rparr>] \<noteq> [] \<and>
   build_contents [\<lparr>msg_role = UserMsg, msg_text = ''hi''\<rparr>,
                   \<lparr>msg_role = Assistant, msg_text = ''hello''\<rparr>] ''weather?'' =
     [\<lparr>role = User, parts = [text_part ''hi'']\<rparr>,
      \<lparr>role = Model, parts = [text_part ''hello'']\<rparr>,
      \<lparr>role = User, parts = [text_part ''weather?'']\<rparr>]"
  using build_contents_rule[of "''weather?''"
      "[\<lparr>msg_role = UserMsg, msg_text = ''hi''\<rparr>, \<lparr>msg_role = Assistant, msg_text = ''hello''\<rparr>]"]
  by (simp add: history_turn_def)

text \<open>
  C7. When the segment list of a response holds several function calls, the first in
  the list is the one honoured: its name is the one name appended to \<open>toolsUsed\<close>, and
  the state after the pass is the state after the one call of executeTool with its
  name and arguments, whatever segments follow it.
\<close>

theorem first_function_call_wins:
  assumes "fetch E (gemini_request apiKey cs) w = (Resolves res, w1)"
    and "ok res" and "json_body res = Inr d"
    and "first_candidate_parts d = Some (pre @ p # post)"
    and "\<forall>q \<in> set pre. functionCall q = None"
    and "functionCall p = Some fc"
  shows "find_functionCall (pre @ p # post) = Some fc \<and>
         (\<exists>toolResult w2.
            executeTool (tools E) (fc_name fc) (fc_args fc) apiKey w1 = (Inr toolResult, w2) \<and>
            iteration E apiKey cs tu w =
              Continue (cs @ [\<lparr>role = Model, parts = pre @ p # post\<rparr>,
                              result_turn (fc_name fc) toolResult])
                (tu @ [fc_name fc]) w2)"
proof -
  have f: "find_functionCall (pre @ p # post) = Some fc"
    using assms(5,6) by (induction pre) simp_all
  obtain toolResult w2 where
    x: "executeTool (tools E) (fc_name fc) (fc_args fc) apiKey w1 = (Inr toolResult, w2)"
    using executeTool_returns[of "tools E" "fc_name fc" "fc_args fc" apiKey w1] by auto
  from iteration_tool_call[OF assms(1-4) f x, of tu] f x show ?thesis by blast
qed

theorem first_function_call_wins_witness:
  "fetch scenario_two_calls (gemini_request ''key'' (build_contents [] ''hi'')) 0 =
     (answer True ([text_part ''checking''] @ call_part ''weather'' # [call_part ''calculate'']), 1) \<and>
   functionCall (text_part ''checking'') = None \<and>
   functionCall (call_part ''weather'') = Some \<lparr>fc_name = ''weather'', fc_args = None, fc_other = []\<rparr> \<and>
   iteration scenario_two_calls ''key'' (build_contents [] ''hi'') [] 0 =
     Continue (build_contents [] ''hi'' @
        [\<lparr>role = Model,
          parts = [text_part ''checking'', call_part ''weather'', call_part ''calculate'']\<rparr>,
         result_turn ''weather'' ''5 C, clear''])
       [''weather''] 1 \<and>
   handleChat scenario_two_calls ''hi'' [] ''key'' 0 =
     (Inr \<lparr>reply = ''done'', tools_used = [''weather'']\<rparr>, 2)"
proof -
  let ?fc = "\<lparr>fc_name = ''weather'', fc_args = None, fc_other = []\<rparr>"
  let ?pre = "[text_part ''checking'']"
  let ?post = "[call_part ''calculate'']"
  let ?ps = "?pre @ call_part ''weather'' # ?post"
  let ?d = "data_with_parts ?ps"
  let ?res = "\<lparr>ok = True, body_text = sample_body_text ?d, json_body = Inr ?d\<rparr>"
  let ?cs = "build_contents [] ''hi''"
  have h: "fetch scenario_two_calls (gemini_request ''key'' ?cs) 0 = (answer True ?ps, 1)"
    by (simp add: scenario_two_calls_def sample_env_def two_step_def)
  then have h1: "fetch scenario_two_calls (gemini_request ''key'' ?cs) 0 = (Resolves ?res, 1)"
    by (simp add: answer_def)
  have h2: "ok ?res" "json_body ?res = Inr ?d" "first_candidate_parts ?d = Some ?ps"
    by (simp_all add: data_with_parts_def first_candidate_parts_def)
  have h3: "\<forall>q \<in> set ?pre. functionCall q = None" by (simp add: text_part_def)
  have h4: "functionCall (call_part ''weather'') = Some ?fc" by (simp add: call_part_def)
  from first_function_call_wins[OF h1 h2 h3 h4, of "[]"]
  obtain toolResult w2 where
    x: "executeTool (tools scenario_two_calls) (fc_name ?fc) (fc_args ?fc) ''key'' 1 =
        (Inr toolResult, w2)"
    and i: "iteration scenario_two_calls ''key'' ?cs [] 0 =
        Continue (?cs @ [\<lparr>role = Model, parts = ?ps\<rparr>, result_turn (fc_name ?fc) toolResult])
          ([] @ [fc_name ?fc]) w2"
    by (elim exE conjE)
  have "executeTool (tools scenario_two_calls) (fc_name ?fc) (fc_args ?fc) ''key'' 1 =
      (Inr ''5 C, clear'', 1)"
    by (simp add: executeTool_def dispatch_def scenario_two_calls_def sample_env_def
        sample_tools_def)
  with x have "toolResult = ''5 C, clear''" "w2 = 1" by simp_all
  with i have c: "iteration scenario_two_calls ''key'' ?cs [] 0 =
     Continue (?cs @
        [\<lparr>role = Model,
          parts = [text_part ''checking'', call_part ''weather'', call_part ''calculate'']\<rparr>,
         result_turn ''weather'' ''5 C, clear''])
       [''weather''] 1" by simp
  have e: "handleChat scenario_two_calls ''hi'' [] ''key'' 0 =
     (Inr \<lparr>reply = ''done'', tools_used = [''weather'']\<rparr>, 2)"
    by (simp add: scenario_two_calls_def run_defs)
  from h3 have h3': "functionCall (text_part ''checking'') = None" by simp
  from h h3' h4 c e show ?thesis by blast
qed

text \<open>
  C8 as stated fails: the specification counts as ServiceError every failed remote
  call, a non-success status or a transport failure. A non-success status whose body
  is not JSON, and a refused connection, return nothing: handleChat ends with an
  exception, and the names collected so far (here one, after a tool call) are not
  delivered to the caller; at the first call no empty \<open>tools_used\<close> is returned either.
\<close>

theorem service_error_loses_tools_used:
  "handleChat scenario_late_not_json ''hi'' [] ''key'' 0 =
     (Inl (Error ''Unexpected token in JSON''), 2) \<and>
   toolsUsed (run_chat scenario_late_not_json ''hi'' [] ''key'' 0) = [''weather''] \<and>
   handleChat scenario_late_refused ''hi'' [] ''key'' 0 =
     (Inl (Error ''connection refused''), 2) \<and>
   toolsUsed (run_chat scenario_late_refused ''hi'' [] ''key'' 0) = [''weather''] \<and>
   handleChat scenario_refused ''hi'' [] ''key'' 0 = (Inl (Error ''connection refused''), 1)"
  by (simp add: scenario_late_not_json_def scenario_late_refused_def scenario_refused_def
      run_defs)

text \<open>
  C8, amended. At any pass of the loop, a response with a non-success status and a
  body that parses as JSON (of the wire shape of the completion service) ends
  handleChat with the service-error reply, and a response with a success status and no
  candidate or an empty segment list ends it with the fixed no-response reply; a
  segment list with neither a function call nor a non-empty text ends it with the
  fixed cannot-process reply. Each time the returned \<open>tools_used\<close> is the list collected
  so far and no further completion call is made; when the first call has a non-success
  status, \<open>tools_used\<close> is empty. The other failed calls, a rejected \<open>fetch\<close> and a body
  that is not JSON, are terminal too but return nothing: handleChat ends with the
  exception and the list collected so far stays behind.
\<close>

theorem service_error_and_malformed_are_terminal:
  "(\<forall>res d w1.
      fetch E (gemini_request apiKey cs) w = (Resolves res, w1) \<and> json_body res = Inr d \<and>
      \<not> ok res \<longrightarrow>
      loop E apiKey (Suc k) cs tu reqs w =
        \<lparr>outcome = Inr \<lparr>reply = service_error_reply E d, tools_used = tu\<rparr>,
         contents = cs, toolsUsed = tu, requests = reqs @ [cs], world = w1\<rparr>) \<and>
   (\<forall>res d w1.
      fetch E (gemini_request apiKey cs) w = (Resolves res, w1) \<and> json_body res = Inr d \<and>
      ok res \<and> (first_candidate_parts d = None \<or> first_candidate_parts d = Some []) \<longrightarrow>
      loop E apiKey (Suc k) cs tu reqs w =
        \<lparr>outcome = Inr \<lparr>reply = no_response_msg, tools_used = tu\<rparr>,
         contents = cs, toolsUsed = tu, requests = reqs @ [cs], world = w1\<rparr>) \<and>
   (\<forall>res d w1 ps.
      fetch E (gemini_request apiKey cs) w = (Resolves res, w1) \<and> json_body res = Inr d \<and>
      ok res \<and> first_candidate_parts d = Some ps \<and> ps \<noteq> [] \<and>
      find_functionCall ps = None \<and> find_text ps = None \<longrightarrow>
      loop E apiKey (Suc k) cs tu reqs w =
        \<lparr>outcome = Inr \<lparr>reply = cannot_process_msg, tools_used = tu\<rparr>,
         contents = cs, toolsUsed = tu, requests = reqs @ [cs], world = w1\<rparr>) \<and>
   (\<forall>res d w1.
      fetch E (gemini_request apiKey (build_contents history msg)) w = (Resolves res, w1) \<and>
      json_body res = Inr d \<and> \<not> ok res \<longrightarrow>
      handleChat E msg history apiKey w =
        (Inr \<lparr>reply = service_error_reply E d, tools_used = []\<rparr>, w1)) \<and>
   (\<forall>err w1.
      fetch E (gemini_request apiKey cs) w = (Rejects err, w1) \<longrightarrow>
      loop E apiKey (Suc k) cs tu reqs w =
        \<lparr>outcome = Inl err, contents = cs, toolsUsed = tu,
         requests = reqs @ [cs], world = w1\<rparr>) \<and>
   (\<forall>res err w1.
      fetch E (gemini_request apiKey cs) w = (Resolves res, w1) \<and> json_body res = Inl err \<longrightarrow>
      loop E apiKey (Suc k) cs tu reqs w =
        \<lparr>outcome = Inl err, contents = cs, toolsUsed = tu,
         requests = reqs @ [cs], world = w1\<rparr>)"
  by (auto simp: iteration_def handleChat_def run_chat_def MAX_TOOL_CALLS_def numeral_eq_Suc)

theorem service_error_and_malformed_are_terminal_witness:
  "fetch scenario_late_error (gemini_request ''key''
      (build_contents [] ''hi'' @
         [\<lparr>role = Model, parts = [call_part ''weather'']\<rparr>,
          result_turn ''weather'' ''5 C, clear''])) 1 =
     (service_error ''quota exceeded'', 2) \<and>
   handleChat scenario_late_error ''hi'' [] ''key'' 0 =
     (Inr \<lparr>reply = api_error_prefix @ ''quota exceeded'', tools_used = [''weather'']\<rparr>, 2) \<and>
   fetch scenario_C (gemini_request ''key'' (build_contents [] ''hi'')) 0 =
     (service_error ''quota exceeded'', 1) \<and>
   handleChat scenario_C ''hi'' [] ''key'' 0 =
     (Inr \<lparr>reply = api_error_prefix @ ''quota exceeded'', tools_used = []\<rparr>, 1) \<and>
   fetch scenario_empty (gemini_request ''key'' (build_contents [] ''hi'')) 0 =
     (answer True [], 1) \<and>
   handleChat scenario_empty ''hi'' [] ''key'' 0 =
     (Inr \<lparr>reply = no_response_msg, tools_used = []\<rparr>, 1) \<and>
   fetch scenario_blank_text (gemini_request ''key'' (build_contents [] ''hi'')) 0 =
     (answer True [text_part [], text_part []], 1) \<and>
   handleChat scenario_blank_text ''hi'' [] ''key'' 0 =
     (Inr \<lparr>reply = cannot_process_msg, tools_used = []\<rparr>, 1) \<and>
   fetch scenario_late_refused (gemini_request ''key''
      (build_contents [] ''hi'' @
         [\<lparr>role = Model, parts = [call_part ''weather'']\<rparr>,
          result_turn ''weather'' ''5 C, clear''])) 1 =
     (Rejects (Error ''connection refused''), 2) \<and>
   run_chat scenario_late_refused ''hi'' [] ''key'' 0 =
     \<lparr>outcome = Inl (Error ''connection refused''),
      contents = build_contents [] ''hi'' @
         [\<lparr>role = Model, parts = [call_part ''weather'']\<rparr>,
          result_turn ''weather'' ''5 C, clear''],
      toolsUsed = [''weather''],
      requests = [build_contents [] ''hi'',
                  build_contents [] ''hi'' @
                    [\<lparr>role = Model, parts = [call_part ''weather'']\<rparr>,
                     result_turn ''weather'' ''5 C, clear'']],
      world = 2\<rparr> \<and>
   fetch scenario_late_not_json (gemini_request ''key''
      (build_contents [] ''hi'' @
         [\<lparr>role = Model, parts = [call_part ''weather'']\<rparr>,
          result_turn ''weather'' ''5 C, clear''])) 1 =
     (not_json, 2) \<and>
   outcome (run_chat scenario_late_not_json ''hi'' [] ''key'' 0) =
     Inl (Error ''Unexpected token in JSON'')"
proof -
  let ?cs = "build_contents [] ''hi''"
  let ?cs1 = "?cs @ [\<lparr>role = Model, parts = [call_part ''weather'']\<rparr>,
                     result_turn ''weather'' ''5 C, clear'']"
  let ?d = "\<lparr>error_message = Some ''quota exceeded'', candidates = None\<rparr>"
  let ?res = "\<lparr>ok = False, body_text = sample_body_text ?d, json_body = Inr ?d\<rparr>"
  let ?bad = "\<lparr>ok = False, body_text = ''502 Bad Gateway'',
               json_body = Inl (Error ''Unexpected token in JSON'')\<rparr>"
  let ?ans = "\<lambda>ps. \<lparr>ok = True, body_text = sample_body_text (data_with_parts ps),
                     json_body = Inr (data_with_parts ps)\<rparr>"
  note main = service_error_and_malformed_are_terminal
  \<comment> \<open>a service error at the second pass, after one tool call\<close>
  have f1: "fetch scenario_late_error (gemini_request ''key'' ?cs1) 1 =
      (service_error ''quota exceeded'', 2)"
    by (simp add: scenario_late_error_def sample_env_def two_step_def)
  then have "fetch scenario_late_error (gemini_request ''key'' ?cs1) 1 = (Resolves ?res, 2) \<and>
      json_body ?res = Inr ?d \<and> \<not> ok ?res"
    by (simp add: service_error_def)
  from main[where E = scenario_late_error and apiKey = "''key''" and cs = ?cs1 and w = 1
        and k = 3 and tu = "[''weather'']" and reqs = "[?cs]",
      THEN conjunct1, rule_format, OF this]
  have l1: "loop scenario_late_error ''key'' (Suc 3) ?cs1 [''weather''] [?cs] 1 =
      \<lparr>outcome = Inr \<lparr>reply = service_error_reply scenario_late_error ?d,
                       tools_used = [''weather'']\<rparr>,
       contents = ?cs1, toolsUsed = [''weather''], requests = [?cs] @ [?cs1], world = 2\<rparr>" .
  have "run_chat scenario_late_error ''hi'' [] ''key'' 0 =
      loop scenario_late_error ''key'' (Suc 3) ?cs1 [''weather''] [?cs] 1"
    by (simp add: scenario_late_error_def run_defs)
  with l1 have c1: "handleChat scenario_late_error ''hi'' [] ''key'' 0 =
     (Inr \<lparr>reply = api_error_prefix @ ''quota exceeded'', tools_used = [''weather'']\<rparr>, 2)"
    by (simp add: handleChat_def service_error_reply_def)
  \<comment> \<open>a service error at the first call\<close>
  have f2: "fetch scenario_C (gemini_request ''key'' ?cs) 0 = (service_error ''quota exceeded'', 1)"
    by (simp add: scenario_C_def sample_env_def always_def)
  then have "fetch scenario_C (gemini_request ''key'' ?cs) 0 = (Resolves ?res, 1) \<and>
      json_body ?res = Inr ?d \<and> \<not> ok ?res"
    by (simp add: service_error_def)
  from main[where E = scenario_C and apiKey = "''key''" and w = 0 and history = "[]"
        and msg = "''hi''",
      THEN conjunct2, THEN conjunct2, THEN conjunct2, THEN conjunct1, rule_format, OF this]
  have c2: "handleChat scenario_C ''hi'' [] ''key'' 0 =
     (Inr \<lparr>reply = api_error_prefix @ ''quota exceeded'', tools_used = []\<rparr>, 1)"
    by (simp add: service_error_reply_def)
  \<comment> \<open>an empty segment list\<close>
  have f3: "fetch scenario_empty (gemini_request ''key'' ?cs) 0 = (answer True [], 1)"
    by (simp add: scenario_empty_def sample_env_def always_def)
  then have "fetch scenario_empty (gemini_request ''key'' ?cs) 0 = (Resolves (?ans []), 1) \<and>
      json_body (?ans []) = Inr (data_with_parts []) \<and> ok (?ans []) \<and>
      (first_candidate_parts (data_with_parts []) = None \<or>
       first_candidate_parts (data_with_parts []) = Some [])"
    by (simp add: answer_def data_with_parts_def first_candidate_parts_def)
  from main[where E = scenario_empty and apiKey = "''key''" and cs = ?cs and w = 0
        and k = 4 and tu = "[]" and reqs = "[]",
      THEN conjunct2, THEN conjunct1, rule_format, OF this]
  have c3: "handleChat scenario_empty ''hi'' [] ''key'' 0 =
     (Inr \<lparr>reply = no_response_msg, tools_used = []\<rparr>, 1)"
    by (simp add: handleChat_def run_chat_def MAX_TOOL_CALLS_def numeral_eq_Suc)
  \<comment> \<open>only empty texts\<close>
  let ?blank = "[text_part [], text_part []]"
  have f4: "fetch scenario_blank_text (gemini_request ''key'' ?cs) 0 = (answer True ?blank, 1)"
    by (simp add: scenario_blank_text_def sample_env_def always_def)
  then have "fetch scenario_blank_text (gemini_request ''key'' ?cs) 0 =
        (Resolves (?ans ?blank), 1) \<and>
      json_body (?ans ?blank) = Inr (data_with_parts ?blank) \<and> ok (?ans ?blank) \<and>
      first_candidate_parts (data_with_parts ?blank) = Some ?blank \<and> ?blank \<noteq> [] \<and>
      find_functionCall ?blank = None \<and> find_text ?blank = None"
    by (simp add: answer_def data_with_parts_def first_candidate_parts_def text_part_def)
  from main[where E = scenario_blank_text and apiKey = "''key''" and cs = ?cs and w = 0
        and k = 4 and tu = "[]" and reqs = "[]",
      THEN conjunct2, THEN conjunct2, THEN conjunct1, rule_format, OF this]
  have c4: "handleChat scenario_blank_text ''hi'' [] ''key'' 0 =
     (Inr \<lparr>reply = cannot_process_msg, tools_used = []\<rparr>, 1)"
    by (simp add: handleChat_def run_chat_def MAX_TOOL_CALLS_def numeral_eq_Suc)
  \<comment> \<open>a refused connection at the second call\<close>
  have f5: "fetch scenario_late_refused (gemini_request ''key'' ?cs1) 1 =
      (Rejects (Error ''connection refused''), 2)"
    by (simp add: scenario_late_refused_def sample_env_def two_step_def)
  from main[where E = scenario_late_refused and apiKey = "''key''" and cs = ?cs1 and w = 1
        and k = 3 and tu = "[''weather'']" and reqs = "[?cs]",
      THEN conjunct2, THEN conjunct2, THEN conjunct2, THEN conjunct2, THEN conjunct1,
      rule_format, OF this]
  have l5: "loop scenario_late_refused ''key'' (Suc 3) ?cs1 [''weather''] [?cs] 1 =
      \<lparr>outcome = Inl (Error ''connection refused''), contents = ?cs1,
       toolsUsed = [''weather''], requests = [?cs] @ [?cs1], world = 2\<rparr>" .
  have "run_chat scenario_late_refused ''hi'' [] ''key'' 0 =
      loop scenario_late_refused ''key'' (Suc 3) ?cs1 [''weather''] [?cs] 1"
    by (simp add: scenario_late_refused_def run_defs)
  with l5 have c5: "run_chat scenario_late_refused ''hi'' [] ''key'' 0 =
     \<lparr>outcome = Inl (Error ''connection refused''), contents = ?cs1,
      toolsUsed = [''weather''], requests = [?cs, ?cs1], world = 2\<rparr>"
    by simp
  \<comment> \<open>a body that is not JSON at the second call\<close>
  have f6: "fetch scenario_late_not_json (gemini_request ''key'' ?cs1) 1 = (not_json, 2)"
    by (simp add: scenario_late_not_json_def sample_env_def two_step_def)
  then have "fetch scenario_late_not_json (gemini_request ''key'' ?cs1) 1 =
      (Resolves ?bad, 2) \<and> json_body ?bad = Inl (Error ''Unexpected token in JSON'')"
    by (simp add: not_json_def)
  from main[where E = scenario_late_not_json and apiKey = "''key''" and cs = ?cs1 and w = 1
        and k = 3 and tu = "[''weather'']" and reqs = "[?cs]",
      THEN conjunct2, THEN conjunct2, THEN conjunct2, THEN conjunct2, THEN conjunct2,
      rule_format, OF this]
  have l6: "loop scenario_late_not_json ''key'' (Suc 3) ?cs1 [''weather''] [?cs] 1 =
      \<lparr>outcome = Inl (Error ''Unexpected token in JSON''), contents = ?cs1,
       toolsUsed = [''weather''], requests = [?cs] @ [?cs1], world = 2\<rparr>" .
  have "run_chat scenario_late_not_json ''hi'' [] ''key'' 0 =
      loop scenario_late_not_json ''key'' (Suc 3) ?cs1 [''weather''] [?cs] 1"
    by (simp add: scenario_late_not_json_def run_defs)
  with l6 have c6: "outcome (run_chat scenario_late_not_json ''hi'' [] ''key'' 0) =
     Inl (Error ''Unexpected token in JSON'')"
    by simp
  from f1 c1 f2 c2 f3 c3 f4 c4 f5 c5 f6 c6 show ?thesis by blast
qed

text \<open>
  C9 as stated fails: \<open>!message\<close> also rejects the empty string, which is a string, and
  a request with a valid message is answered without the orchestrator when the API
  key is not configured.
\<close>

theorem empty_message_rejected:
  "is_string (JStr []) \<and>
   api_chat scenario_A (Some ''key'')
     (Inr \<lparr>body_message = Some (JStr []), body_history = None\<rparr>) 0 =
     (Json400 ''message is required'', 0) \<and>
   api_chat scenario_A None
     (Inr \<lparr>body_message = Some (JStr ''hi''), body_history = None\<rparr>) 0 =
     (Json500 ''GEMINI_API_KEY not configured'', 0)"
  by (simp add: api_chat_def is_string_def)

text \<open>
  C9, amended. A body is rejected with \<open>message is required\<close>, without a call of
  handleChat, exactly when its message is absent, not a string, or the empty string.
  When the message is a non-empty string and the API key is configured, the route
  answers with what handleChat gives for that message and the supplied history, an
  absent history taken as the empty list.
\<close>

theorem api_chat_validation:
  "(fst (api_chat E KEY (Inr body) w) = Json400 ''message is required'' \<longleftrightarrow>
      (body_message body = None \<or>
       (\<exists>v. body_message body = Some v \<and> (\<not> is_string v \<or> v = JStr [])))) \<and>
   (body_message body = None \<or>
    (\<exists>v. body_message body = Some v \<and> (\<not> is_string v \<or> v = JStr [])) \<longrightarrow>
      (\<forall>E'. api_chat E' KEY (Inr body) w = (Json400 ''message is required'', w))) \<and>
   (\<forall>m key. body_message body = Some (JStr m) \<and> m \<noteq> [] \<and> KEY = Some key \<and> key \<noteq> [] \<longrightarrow>
      api_chat E KEY (Inr body) w =
        (case handleChat E m (case body_history body of None \<Rightarrow> [] | Some h \<Rightarrow> h) key w of
           (Inr result, w') \<Rightarrow> (Json200 result, w')
         | (Inl err, w') \<Rightarrow> (Json500 (message err), w')))"
proof (intro conjI)
  show "fst (api_chat E KEY (Inr body) w) = Json400 ''message is required'' \<longleftrightarrow>
      (body_message body = None \<or>
       (\<exists>v. body_message body = Some v \<and> (\<not> is_string v \<or> v = JStr [])))"
  proof (cases "body_message body")
    case None
    then show ?thesis by (simp add: api_chat_def)
  next
    case (Some v)
    then show ?thesis
      by (cases v) (auto simp: api_chat_def is_string_def split: option.splits prod.splits sum.splits)
  qed
next
  show "body_message body = None \<or>
    (\<exists>v. body_message body = Some v \<and> (\<not> is_string v \<or> v = JStr [])) \<longrightarrow>
      (\<forall>E'. api_chat E' KEY (Inr body) w = (Json400 ''message is required'', w))"
  proof (cases "body_message body")
    case None
    then show ?thesis by (simp add: api_chat_def)
  next
    case (Some v)
    then show ?thesis
      by (cases v) (auto simp: api_chat_def is_string_def)
  qed
next
  show "\<forall>m key. body_message body = Some (JStr m) \<and> m \<noteq> [] \<and> KEY = Some key \<and> key \<noteq> [] \<longrightarrow>
      api_chat E KEY (Inr body) w =
        (case handleChat E m (case body_history body of None \<Rightarrow> [] | Some h \<Rightarrow> h) key w of
           (Inr result, w') \<Rightarrow> (Json200 result, w')
         | (Inl err, w') \<Rightarrow> (Json500 (message err), w'))"
    by (simp add: api_chat_def)
qed

theorem api_chat_validation_witness:
  "body_message \<lparr>body_message = None, body_history = None\<rparr> = None \<and>
   api_chat scenario_A (Some ''key'') (Inr \<lparr>body_message = None, body_history = None\<rparr>) 0 =
     (Json400 ''message is required'', 0) \<and>
   \<not> is_string (JNum 5) \<and>
   api_chat scenario_A (Some ''key'')
     (Inr \<lparr>body_message = Some (JNum 5), body_history = None\<rparr>) 0 =
     (Json400 ''message is required'', 0) \<and>
   handleChat scenario_A ''hi'' [] ''key'' 0 =
     (Inr \<lparr>reply = ''It is 5 C and clear in Seoul.'', tools_used = [''weather'']\<rparr>, 2) \<and>
   api_chat scenario_A (Some ''key'')
     (Inr \<lparr>body_message = Some (JStr ''hi''), body_history = None\<rparr>) 0 =
     (Json200 \<lparr>reply = ''It is 5 C and clear in Seoul.'', tools_used = [''weather'']\<rparr>, 2)"
proof -
  note main = api_chat_validation
  let ?b0 = "\<lparr>body_message = None, body_history = None\<rparr>"
  let ?b1 = "\<lparr>body_message = Some (JNum 5), body_history = None\<rparr>"
  let ?b2 = "\<lparr>body_message = Some (JStr ''hi''), body_history = None\<rparr>"
  have h0: "body_message ?b0 = None" by simp
  then have "body_message ?b0 = None \<or>
      (\<exists>v. body_message ?b0 = Some v \<and> (\<not> is_string v \<or> v = JStr []))" by blast
  from main[of scenario_A "Some ''key''" ?b0 0, THEN conjunct2, THEN conjunct1, rule_format,
      OF this, of scenario_A]
  have c0: "api_chat scenario_A (Some ''key'') (Inr ?b0) 0 = (Json400 ''message is required'', 0)" .
  have h1: "\<not> is_string (JNum 5)" by (simp add: is_string_def)
  then have "body_message ?b1 = None \<or>
      (\<exists>v. body_message ?b1 = Some v \<and> (\<not> is_string v \<or> v = JStr []))" by simp
  from main[of scenario_A "Some ''key''" ?b1 0, THEN conjunct2, THEN conjunct1, rule_format,
      OF this, of scenario_A]
  have c1: "api_chat scenario_A (Some ''key'') (Inr ?b1) 0 = (Json400 ''message is required'', 0)" .
  have e: "handleChat scenario_A ''hi'' [] ''key'' 0 =
     (Inr \<lparr>reply = ''It is 5 C and clear in Seoul.'', tools_used = [''weather'']\<rparr>, 2)"
    by (simp add: scenario_A_def run_defs)
  have "body_message ?b2 = Some (JStr ''hi'') \<and> ''hi'' \<noteq> [] \<and>
      Some ''key'' = Some ''key'' \<and> ''key'' \<noteq> []" by simp
  from main[of scenario_A "Some ''key''" ?b2 0, THEN conjunct2, THEN conjunct2, rule_format,
      OF this]
  have c2: "api_chat scenario_A (Some ''key'') (Inr ?b2) 0 =
     (Json200 \<lparr>reply = ''It is 5 C and clear in Seoul.'', tools_used = [''weather'']\<rparr>, 2)"
    by (simp add: e)
  from h0 c0 h1 c1 e c2 show ?thesis by blast
qed

text \<open>
  C10. executeCalculate with operation \<open>divide\<close> and \<open>b === 0\<close> returns the fixed
  division-by-zero string, whatever the division would compute; with an operation
  outside add, subtract, multiply and divide it returns the unknown-operation string
  with the operation's name; and it always returns a string, never throws.
\<close>

theorem executeCalculate_guards:
  "(operation args = ''divide'' \<and> is_zero N (arg_b args) \<longrightarrow>
      (\<forall>f. executeCalculate (N\<lparr>num_div := f\<rparr>) args = Inr division_by_zero_msg)) \<and>
   (operation args \<notin> {''add'', ''subtract'', ''multiply'', ''divide''} \<longrightarrow>
      executeCalculate N args = Inr (unknown_operation_prefix @ operation args)) \<and>
   (\<exists>s. executeCalculate N args = Inr s)"
  by (simp add: executeCalculate_def)

theorem executeCalculate_guards_witness:
  "operation \<lparr>operation = ''divide'', arg_a = 7, arg_b = (0::int)\<rparr> = ''divide'' \<and>
   is_zero int_ops (arg_b \<lparr>operation = ''divide'', arg_a = 7, arg_b = (0::int)\<rparr>) \<and>
   executeCalculate int_ops \<lparr>operation = ''divide'', arg_a = 7, arg_b = 0\<rparr> =
     Inr division_by_zero_msg \<and>
   operation \<lparr>operation = ''modulo'', arg_a = 7, arg_b = (2::int)\<rparr>
     \<notin> {''add'', ''subtract'', ''multiply'', ''divide''} \<and>
   executeCalculate int_ops \<lparr>operation = ''modulo'', arg_a = 7, arg_b = 2\<rparr> =
     Inr (unknown_operation_prefix @ ''modulo'')"
proof -
  have a: "operation \<lparr>operation = ''divide'', arg_a = 7, arg_b = (0::int)\<rparr> = ''divide'' \<and>
      is_zero int_ops (arg_b \<lparr>operation = ''divide'', arg_a = 7, arg_b = (0::int)\<rparr>)"
    by (simp add: int_ops_def)
  have b: "operation \<lparr>operation = ''modulo'', arg_a = 7, arg_b = (2::int)\<rparr>
     \<notin> {''add'', ''subtract'', ''multiply'', ''divide''}" by simp
  from a executeCalculate_guards[of "\<lparr>operation = ''divide'', arg_a = 7, arg_b = (0::int)\<rparr>" int_ops]
  have "executeCalculate (int_ops\<lparr>num_div := num_div int_ops\<rparr>)
      \<lparr>operation = ''divide'', arg_a = 7, arg_b = 0\<rparr> = Inr division_by_zero_msg" by blast
  then have c: "executeCalculate int_ops \<lparr>operation = ''divide'', arg_a = 7, arg_b = 0\<rparr> =
     Inr division_by_zero_msg" by simp
  from b executeCalculate_guards[of "\<lparr>operation = ''modulo'', arg_a = 7, arg_b = (2::int)\<rparr>" int_ops]
  have d: "executeCalculate int_ops \<lparr>operation = ''modulo'', arg_a = 7, arg_b = 2\<rparr> =
     Inr (unknown_operation_prefix @ ''modulo'')" by simp
  from a b c d show ?thesis by blast
qed

end
